theory Spec2Isabelle
  imports Main "HOL-Library.AList" "HOL-Library.Sublist" "HOL-Library.Word"
begin

section \<open>The file manager: environment, faults and the world\<close>

text \<open>
  The program is a command-line file manager written in C against POSIX. Its functions
  are embedded as HOL functions over an explicit world: the file system, the two output
  streams and the number of clock readings taken so far.

  \<^item> A C string is the list of its characters before the terminator.
  \<^item> The file system is an association list from canonical names to nodes, in
    enumeration order. The kernel resolves every path it is given: \<open>resolve e p\<close> is the
    canonical name of the file that the path \<open>p\<close> names, so two paths have the same
    canonical name exactly when they name the same file (\<open>./log.txt\<close> and \<open>log.txt\<close>, a
    relative and an absolute path, a link and its target). A canonical name is relative
    to the working directory, its parts separated by single slashes; the entries of the
    directory with the canonical name \<open>d\<close> are the names \<open>d/n\<close> with no further slash in
    \<open>n\<close>. A file has one canonical name (no hard links), and how paths resolve does
    not change while one command runs. An entry is made only in a directory that is
    there.
  \<^item> A system call fails for a reason the world shows (the path is missing, exists
    already, is of the wrong kind, the directory is not empty), or because the
    environment makes it fail for an outside reason (permissions, a full disk, a lock
    held by another process, no memory, no process slot). Every error branch of the
    source is a branch of the model.
  \<^item> A write transfers all its bytes or fails; a read returns the whole file or fails.
  \<^item> A child process runs to its exit before the parent continues, on the same world;
    a child that is killed (\<open>Killed\<close>) is killed before it acts.
\<close>

datatype func =
    In_create_file | In_read_file | In_append_to_file | In_delete_file
  | In_init_logging | In_log_operation | In_show_logs
  | In_create_directory | In_list_directory | In_list_files_by_extension
  | In_delete_directory | In_parse_command | In_main

datatype syscall =
    Open | Flock | Flock_wouldblock | Funlock | Write | Write_newline | Close
  | Stat | Fstat | Lseek | Read | Malloc | Fork | Killed
  | Unlink | Mkdir | Opendir | Rmdir

text \<open>
  The environment: \<open>clock e k\<close> is the text the \<open>k\<close>-th reading of the clock leaves in
  the caller's buffer; \<open>fault e f s\<close> is \<open>Some msg\<close> when call \<open>s\<close> inside \<open>f\<close> fails
  for an outside reason whose \<open>strerror\<close> text is \<open>msg\<close>; \<open>dir_size e\<close> is the size
  \<open>fstat\<close> reports for a directory; \<open>resolve e p\<close> is the canonical name of the file
  that the path \<open>p\<close> names.
\<close>

record env =
  clock :: "nat \<Rightarrow> string"
  fault :: "func \<Rightarrow> syscall \<Rightarrow> string option"
  dir_size :: nat
  resolve :: "string \<Rightarrow> string"

definition fails :: "env \<Rightarrow> func \<Rightarrow> syscall \<Rightarrow> bool" where
  "fails e f s = (fault e f s \<noteq> None)"

text \<open>No call inside \<open>f\<close> fails for an outside reason.\<close>

definition quiet :: "env \<Rightarrow> func \<Rightarrow> bool" where
  "quiet e f = (\<forall>s. fault e f s = None)"

text \<open>
  Resolving a path by its text alone: the parts between slashes, without the empty
  ones and the ones that are \<open>.\<close>, joined by single slashes. This is how paths resolve
  when the working directory is the root and no part is \<open>..\<close> or a link.
\<close>

fun components :: "string \<Rightarrow> string \<Rightarrow> string list" where
  "components acc [] = [acc]"
| "components acc (c # cs) =
     (if c = CHR ''/'' then acc # components [] cs else components (acc @ [c]) cs)"

fun join_path :: "string list \<Rightarrow> string" where
  "join_path [] = []"
| "join_path [x] = x"
| "join_path (x # y # xs) = x @ ''/'' @ join_path (y # xs)"

definition canonical :: "string \<Rightarrow> string" where
  "canonical p = join_path (filter (\<lambda>c. c \<noteq> [] \<and> c \<noteq> ''.'') (components [] p))"

text \<open>
  The environment in which nothing fails, every clock reading is the same and paths
  resolve by their text.
\<close>

definition calm :: env where
  "calm = \<lparr> clock = (\<lambda>k. ''[2024-01-01 00:00:00]''), fault = (\<lambda>f s. None), dir_size = 4096,
            resolve = canonical \<rparr>"

section \<open>The command parser (fileManager.c)\<close>

definition MAX_ARGS :: nat where
  "MAX_ARGS = 4"

definition MAX_ARG_SIZE :: nat where
  "MAX_ARG_SIZE = 256"

text \<open>
  \<open>parse_command\<close> fills an array of \<open>MAX_ARGS\<close> pointers, each either null or a
  buffer of \<open>MAX_ARG_SIZE\<close> bytes from \<open>malloc\<close>. A buffer is modelled by the
  characters stored in it so far, which are its indices \<open>0 .. j - 1\<close>. The C code
  checks neither index; the model checks both and stops with an error where the C
  program would write outside the array or outside the buffer.
\<close>

datatype parse_error =
    Alloc_failed
  | Arg_index_out_of_bounds
  | Buffer_overflow
  | Null_buffer

record pstate =
  arg_count :: nat
  in_quotes :: bool
  j :: nat
  args :: "string option list"

text \<open>\<open>free_args\<close>: every slot is freed and set to null.\<close>

definition free_args :: "string option list \<Rightarrow> string option list" where
  "free_args as = map (\<lambda>_. None) as"

text \<open>\<open>args[arg_count][j] = c\<close>, with the two bounds written out.\<close>

definition store :: "pstate \<Rightarrow> char \<Rightarrow> parse_error + pstate" where
  "store s c =
     (if \<not> arg_count s < length (args s) then Inl Arg_index_out_of_bounds
      else case args s ! arg_count s of
             None \<Rightarrow> Inl Null_buffer
           | Some buf \<Rightarrow>
               if \<not> j s < MAX_ARG_SIZE then Inl Buffer_overflow
               else Inr (s\<lparr> args := (args s)[arg_count s := Some (take (j s) buf @ [c])] \<rparr>))"

text \<open>
  \<open>args[arg_count][j] = '\0'\<close>: the terminator ends the token after \<open>j\<close> characters.
\<close>

definition terminate :: "pstate \<Rightarrow> parse_error + pstate" where
  "terminate s =
     (if \<not> arg_count s < length (args s) then Inl Arg_index_out_of_bounds
      else case args s ! arg_count s of
             None \<Rightarrow> Inl Null_buffer
           | Some buf \<Rightarrow>
               if \<not> j s < MAX_ARG_SIZE then Inl Buffer_overflow
               else Inr (s\<lparr> args := (args s)[arg_count s := Some (take (j s) buf)] \<rparr>))"

text \<open>
  The loop over the input. The list runs out where the C string has its terminator.
  The result is the state at the end of the loop or at the \<open>break\<close>.
\<close>

fun parse_loop :: "env \<Rightarrow> string \<Rightarrow> pstate \<Rightarrow> parse_error + pstate" where
  "parse_loop e [] s = Inr s"
| "parse_loop e (c # cs) s =
     (if c = CHR ''\<newline>'' then Inr s
      else if c = CHR 0x22 then parse_loop e cs (s\<lparr> in_quotes := \<not> in_quotes s \<rparr>)
      else if c = CHR '' '' \<and> \<not> in_quotes s then
        (if j s > 0 then
           (case terminate s of
              Inl err \<Rightarrow> Inl err
            | Inr s1 \<Rightarrow>
                let s2 = s1\<lparr> arg_count := arg_count s1 + 1 \<rparr> in
                if arg_count s2 \<ge> MAX_ARGS then Inr s2
                else if fails e In_parse_command Malloc then Inl Alloc_failed
                else parse_loop e cs
                       (s2\<lparr> args := (args s2)[arg_count s2 := Some []], j := 0 \<rparr>))
         else parse_loop e cs s)
      else
        (case store s c of
           Inl err \<Rightarrow> Inl err
         | Inr s1 \<Rightarrow> parse_loop e cs (s1\<lparr> j := j s1 + 1 \<rparr>)))"

text \<open>
  \<open>parse_command\<close>: the count of tokens and the array, or the error. \<open>Alloc_failed\<close>
  is the C function returning \<open>-1\<close>; the other errors are writes the C program makes
  outside its memory.
\<close>

definition parse_command ::
  "env \<Rightarrow> string \<Rightarrow> string option list \<Rightarrow> parse_error + (nat \<times> string option list)" where
  "parse_command e input args0 =
     (let as = free_args args0 in
      if fails e In_parse_command Malloc then Inl Alloc_failed
      else
        case parse_loop e input
               \<lparr> arg_count = 0, in_quotes = False, j = 0, args = as[0 := Some []] \<rparr> of
          Inl err \<Rightarrow> Inl err
        | Inr s \<Rightarrow>
            if j s > 0 then
              (case terminate s of
                 Inl err \<Rightarrow> Inl err
               | Inr s1 \<Rightarrow> Inr (arg_count s1 + 1, args s1))
            else if arg_count s > 0 then
              (if \<not> arg_count s < length (args s) then Inl Arg_index_out_of_bounds
               else Inr (arg_count s, (args s)[arg_count s := None]))
            else Inr (arg_count s, args s))"

text \<open>The array a caller passes: \<open>MAX_ARGS\<close> null pointers.\<close>

definition no_args :: "string option list" where
  "no_args = replicate MAX_ARGS None"

text \<open>No token of the array holds a double quote: the invariant of the parser's loop.\<close>

definition quote_free :: "pstate \<Rightarrow> bool" where
  "quote_free s = (\<forall>t. Some t \<in> set (args s) \<longrightarrow> CHR 0x22 \<notin> set t)"

section \<open>String formatting and the clock (utils.c)\<close>

text \<open>
  \<open>string_format\<close> writes into a buffer of \<open>size\<close> bytes and keeps the last byte for
  the terminator: a character is stored only while \<open>buffer_pos < size - 1\<close>. The
  buffer is modelled by the characters stored so far, so \<open>buffer_pos\<close> is its length.
  The variable arguments are a list; the callers pass one argument per specifier, and
  the model stops formatting where an argument is missing or of the other kind (the C
  function reads past its arguments there). No caller passes a null string. The value
  of \<open>%d\<close> is a 32 bit \<open>int\<close>; \<open>value = -value\<close> wraps around at \<open>INT_MIN\<close>, as two's
  complement hardware does where C leaves the overflow undefined.
\<close>

datatype fmt_arg = S string | D "32 word"

text \<open>The copy loop of \<open>%s\<close>, and of the digits of \<open>%d\<close>.\<close>

fun sf_copy :: "nat \<Rightarrow> string \<Rightarrow> string \<Rightarrow> string" where
  "sf_copy sz buf [] = buf"
| "sf_copy sz buf (c # str) =
     (if length buf < sz - 1 then sf_copy sz (buf @ [c]) str else buf)"

text \<open>
  The digits of a positive value, lowest first, as the loop fills \<open>temp\<close>: at most
  \<open>k\<close> of them (the C array has 20 places).
\<close>

fun sf_digits :: "nat \<Rightarrow> int \<Rightarrow> string" where
  "sf_digits 0 v = []"
| "sf_digits (Suc k) v =
     (if v > 0 then char_of (48 + v mod 10) # sf_digits k (v div 10) else [])"

definition sf_int :: "nat \<Rightarrow> string \<Rightarrow> 32 word \<Rightarrow> string" where
  "sf_int sz buf v =
     (let buf1 = (if sint v < 0 then buf @ ''-'' else buf) in
      if sint v < 0 \<and> length buf1 \<ge> sz - 1 then buf1
      else
        let a = (if sint v < 0 then - v else v) in
        if a = 0 then buf1 @ ''0''
        else sf_copy sz buf1 (rev (sf_digits 20 (sint a))))"

fun sf_loop :: "nat \<Rightarrow> string \<Rightarrow> fmt_arg list \<Rightarrow> string \<Rightarrow> string" where
  "sf_loop sz [] as buf = buf"
| "sf_loop sz [c] as buf = (if length buf < sz - 1 then buf @ [c] else buf)"
| "sf_loop sz (c # d # fmt) as buf =
     (if \<not> length buf < sz - 1 then buf
      else if c = CHR ''%'' then
        (if d = CHR ''s'' then
           (case as of
              S str # rest \<Rightarrow> sf_loop sz fmt rest (sf_copy sz buf str)
            | _ \<Rightarrow> buf)
         else if d = CHR ''d'' then
           (case as of
              D v # rest \<Rightarrow> sf_loop sz fmt rest (sf_int sz buf v)
            | _ \<Rightarrow> buf)
         else if d = CHR ''%'' then sf_loop sz fmt as (buf @ ''%'')
         else sf_loop sz (d # fmt) as (buf @ [c]))
      else sf_loop sz (d # fmt) as (buf @ [c]))"

text \<open>
  The text left in the buffer; the C function returns its length. With \<open>size = 0\<close>
  the C function returns \<open>-1\<close> and writes nothing; no caller passes that.
\<close>

definition string_format :: "nat \<Rightarrow> string \<Rightarrow> fmt_arg list \<Rightarrow> string" where
  "string_format sz fmt as = (if sz = 0 then [] else sf_loop sz fmt as [])"

text \<open>
  The expansion of a format with no buffer in the way: what \<open>string_format\<close> is a
  prefix of.
\<close>

definition show_int :: "32 word \<Rightarrow> string" where
  "show_int v =
     (if sint v < 0 then ''-'' else []) @
     (if (if sint v < 0 then - v else v) = 0 then ''0''
      else rev (sf_digits 20 (sint (if sint v < 0 then - v else v))))"

fun expand :: "string \<Rightarrow> fmt_arg list \<Rightarrow> string" where
  "expand [] as = []"
| "expand [c] as = [c]"
| "expand (c # d # fmt) as =
     (if c = CHR ''%'' then
        (if d = CHR ''s'' then
           (case as of S str # rest \<Rightarrow> str @ expand fmt rest | _ \<Rightarrow> [])
         else if d = CHR ''d'' then
           (case as of D v # rest \<Rightarrow> show_int v @ expand fmt rest | _ \<Rightarrow> [])
         else if d = CHR ''%'' then CHR ''%'' # expand fmt as
         else c # expand (d # fmt) as)
      else c # expand (d # fmt) as)"

section \<open>The world and the system calls\<close>

datatype node = Reg string | Dir

record world =
  fs :: "(string \<times> node) list"
  out :: string
  err :: string
  ticks :: nat

definition LOG_FILE :: string where
  "LOG_FILE = ''log.txt''"

text \<open>\<open>write(STDOUT_FILENO, ...)\<close> and \<open>write(STDERR_FILENO, ...)\<close>; no caller looks at the result.\<close>

definition put_out :: "string \<Rightarrow> world \<Rightarrow> world" where
  "put_out s w = w\<lparr> out := out w @ s \<rparr>"

definition put_err :: "string \<Rightarrow> world \<Rightarrow> world" where
  "put_err s w = w\<lparr> err := err w @ s \<rparr>"

text \<open>
  \<open>get_timestamp\<close> with a buffer of \<open>sz\<close> bytes. Both callers pass 64 bytes and
  ignore the result, so the branch for a buffer under 22 bytes is never taken and the
  text is whatever the call leaves in the buffer.
\<close>

definition get_timestamp :: "env \<Rightarrow> nat \<Rightarrow> world \<Rightarrow> string \<times> world" where
  "get_timestamp e sz w = (take (sz - 1) (clock e (ticks w)), w\<lparr> ticks := Suc (ticks w) \<rparr>)"

text \<open>\<open>file_exists\<close> and \<open>directory_exists\<close>: \<open>stat\<close> succeeds and the mode is the right one.\<close>

definition file_exists :: "env \<Rightarrow> world \<Rightarrow> string \<Rightarrow> bool" where
  "file_exists e w filename =
     (case map_of (fs w) (resolve e filename) of Some (Reg c) \<Rightarrow> True | _ \<Rightarrow> False)"

definition directory_exists :: "env \<Rightarrow> world \<Rightarrow> string \<Rightarrow> bool" where
  "directory_exists e w dirname =
     (case map_of (fs w) (resolve e dirname) of Some Dir \<Rightarrow> True | _ \<Rightarrow> False)"

text \<open>
  The directory a canonical name lies in: the name up to its last slash, and the
  working directory (the empty name) when it has none. A new entry needs that directory
  to be there; \<open>parent_error\<close> is the text of the error when it is not.
\<close>

definition parent :: "string \<Rightarrow> string" where
  "parent k = rev (drop 1 (dropWhile (\<lambda>c. c \<noteq> CHR ''/'') (rev k)))"

definition parent_error :: "world \<Rightarrow> string \<Rightarrow> string option" where
  "parent_error w k =
     (if parent k = [] then None
      else case map_of (fs w) (parent k) of
             Some Dir \<Rightarrow> None
           | Some (Reg c) \<Rightarrow> Some ''Not a directory''
           | None \<Rightarrow> Some ''No such file or directory'')"

text \<open>
  The system calls. Each returns \<open>Inl msg\<close> on failure, \<open>msg\<close> being the text of
  \<open>strerror(errno)\<close>. A file descriptor is the path it was opened on.
\<close>

text \<open>\<open>open(path, O_WRONLY | O_CREAT | O_EXCL, 0644)\<close>\<close>

definition sys_create :: "env \<Rightarrow> func \<Rightarrow> string \<Rightarrow> world \<Rightarrow> string + world" where
  "sys_create e f path w =
     (case parent_error w (resolve e path) of
        Some msg \<Rightarrow> Inl msg
      | None \<Rightarrow>
     (case map_of (fs w) (resolve e path) of
        Some n \<Rightarrow> Inl ''File exists''
      | None \<Rightarrow>
          (case fault e f Open of
             Some msg \<Rightarrow> Inl msg
           | None \<Rightarrow> Inr (w\<lparr> fs := AList.update (resolve e path) (Reg []) (fs w) \<rparr>))))"

text \<open>\<open>open(path, O_WRONLY | O_CREAT | O_APPEND, 0644)\<close>\<close>

definition sys_open_create :: "env \<Rightarrow> func \<Rightarrow> string \<Rightarrow> world \<Rightarrow> string + world" where
  "sys_open_create e f path w =
     (case fault e f Open of
        Some msg \<Rightarrow> Inl msg
      | None \<Rightarrow>
          (case map_of (fs w) (resolve e path) of
             Some Dir \<Rightarrow> Inl ''Is a directory''
           | Some (Reg c) \<Rightarrow> Inr w
           | None \<Rightarrow>
               (case parent_error w (resolve e path) of
                  Some msg \<Rightarrow> Inl msg
                | None \<Rightarrow> Inr (w\<lparr> fs := AList.update (resolve e path) (Reg []) (fs w) \<rparr>))))"

text \<open>\<open>open(path, O_WRONLY | O_APPEND)\<close> and \<open>open(path, O_RDWR | O_APPEND)\<close>\<close>

definition sys_open_append :: "env \<Rightarrow> func \<Rightarrow> string \<Rightarrow> world \<Rightarrow> string + unit" where
  "sys_open_append e f path w =
     (case map_of (fs w) (resolve e path) of
        None \<Rightarrow> Inl ''No such file or directory''
      | Some Dir \<Rightarrow> Inl ''Is a directory''
      | Some (Reg c) \<Rightarrow> (case fault e f Open of Some msg \<Rightarrow> Inl msg | None \<Rightarrow> Inr ()))"

text \<open>\<open>open(path, O_RDONLY)\<close>: a directory opens too.\<close>

definition sys_open_read :: "env \<Rightarrow> func \<Rightarrow> string \<Rightarrow> world \<Rightarrow> string + unit" where
  "sys_open_read e f path w =
     (case map_of (fs w) (resolve e path) of
        None \<Rightarrow> Inl ''No such file or directory''
      | Some n \<Rightarrow> (case fault e f Open of Some msg \<Rightarrow> Inl msg | None \<Rightarrow> Inr ()))"

text \<open>\<open>write(fd, data, len)\<close> on a descriptor opened with \<open>O_APPEND\<close> or on a new file.\<close>

definition sys_write ::
  "env \<Rightarrow> func \<Rightarrow> syscall \<Rightarrow> string \<Rightarrow> string \<Rightarrow> world \<Rightarrow> string + world" where
  "sys_write e f s path data w =
     (case fault e f s of
        Some msg \<Rightarrow> Inl msg
      | None \<Rightarrow>
          (case map_of (fs w) (resolve e path) of
             Some (Reg c) \<Rightarrow>
               Inr (w\<lparr> fs := AList.update (resolve e path) (Reg (c @ data)) (fs w) \<rparr>)
           | _ \<Rightarrow> Inl ''Bad file descriptor''))"

text \<open>\<open>fstat(fd, &st)\<close>: the size.\<close>

definition sys_fstat :: "env \<Rightarrow> func \<Rightarrow> string \<Rightarrow> world \<Rightarrow> string + nat" where
  "sys_fstat e f path w =
     (case fault e f Fstat of
        Some msg \<Rightarrow> Inl msg
      | None \<Rightarrow>
          (case map_of (fs w) (resolve e path) of
             Some (Reg c) \<Rightarrow> Inr (length c)
           | Some Dir \<Rightarrow> Inr (dir_size e)
           | None \<Rightarrow> Inl ''Bad file descriptor''))"

text \<open>\<open>read(fd, buffer, n)\<close> from the start of the file.\<close>

definition sys_read :: "env \<Rightarrow> func \<Rightarrow> string \<Rightarrow> nat \<Rightarrow> world \<Rightarrow> string + string" where
  "sys_read e f path n w =
     (case fault e f Read of
        Some msg \<Rightarrow> Inl msg
      | None \<Rightarrow>
          (case map_of (fs w) (resolve e path) of
             Some (Reg c) \<Rightarrow> Inr (take n c)
           | Some Dir \<Rightarrow> Inl ''Is a directory''
           | None \<Rightarrow> Inl ''Bad file descriptor''))"

text \<open>\<open>unlink(path)\<close>\<close>

definition sys_unlink :: "env \<Rightarrow> func \<Rightarrow> string \<Rightarrow> world \<Rightarrow> string + world" where
  "sys_unlink e f path w =
     (case map_of (fs w) (resolve e path) of
        None \<Rightarrow> Inl ''No such file or directory''
      | Some Dir \<Rightarrow> Inl ''Is a directory''
      | Some (Reg c) \<Rightarrow>
          (case fault e f Unlink of
             Some msg \<Rightarrow> Inl msg
           | None \<Rightarrow> Inr (w\<lparr> fs := AList.delete (resolve e path) (fs w) \<rparr>)))"

text \<open>\<open>mkdir(path, 0755)\<close>\<close>

definition sys_mkdir :: "env \<Rightarrow> func \<Rightarrow> string \<Rightarrow> world \<Rightarrow> string + world" where
  "sys_mkdir e f path w =
     (case parent_error w (resolve e path) of
        Some msg \<Rightarrow> Inl msg
      | None \<Rightarrow>
     (case map_of (fs w) (resolve e path) of
        Some n \<Rightarrow> Inl ''File exists''
      | None \<Rightarrow>
          (case fault e f Mkdir of
             Some msg \<Rightarrow> Inl msg
           | None \<Rightarrow> Inr (w\<lparr> fs := AList.update (resolve e path) Dir (fs w) \<rparr>))))"

text \<open>
  The entries of the directory with the canonical name \<open>d\<close>: the names \<open>n\<close> of the
  canonical names \<open>d/n\<close>, in the order of the file system, after the two references
  every directory has. A name is not empty, has no slash and is neither of the two
  references.
\<close>

definition entry_of :: "string \<Rightarrow> string \<Rightarrow> bool" where
  "entry_of d path =
     (length d + 1 < length path \<and> take (length d + 1) path = d @ ''/'' \<and>
      CHR ''/'' \<notin> set (drop (length d + 1) path) \<and>
      drop (length d + 1) path \<noteq> ''.'' \<and> drop (length d + 1) path \<noteq> ''..'')"

definition readdir :: "world \<Rightarrow> string \<Rightarrow> string list" where
  "readdir w d =
     ''.'' # ''..'' # map (drop (length d + 1)) (filter (entry_of d) (map fst (fs w)))"

text \<open>\<open>opendir(path)\<close>\<close>

definition sys_opendir :: "env \<Rightarrow> func \<Rightarrow> string \<Rightarrow> world \<Rightarrow> string + string list" where
  "sys_opendir e f path w =
     (case map_of (fs w) (resolve e path) of
        None \<Rightarrow> Inl ''No such file or directory''
      | Some (Reg c) \<Rightarrow> Inl ''Not a directory''
      | Some Dir \<Rightarrow>
          (case fault e f Opendir of
             Some msg \<Rightarrow> Inl msg
           | None \<Rightarrow> Inr (readdir w (resolve e path))))"

text \<open>\<open>rmdir(path)\<close>\<close>

definition sys_rmdir :: "env \<Rightarrow> func \<Rightarrow> string \<Rightarrow> world \<Rightarrow> string + world" where
  "sys_rmdir e f path w =
     (case map_of (fs w) (resolve e path) of
        None \<Rightarrow> Inl ''No such file or directory''
      | Some (Reg c) \<Rightarrow> Inl ''Not a directory''
      | Some Dir \<Rightarrow>
          if filter (entry_of (resolve e path)) (map fst (fs w)) \<noteq> []
          then Inl ''Directory not empty''
          else
            (case fault e f Rmdir of
               Some msg \<Rightarrow> Inl msg
             | None \<Rightarrow> Inr (w\<lparr> fs := AList.delete (resolve e path) (fs w) \<rparr>)))"

section \<open>Logging (logging.c)\<close>

definition init_logging :: "env \<Rightarrow> world \<Rightarrow> int \<times> world" where
  \<open>init_logging e w =
     (case sys_open_create e In_init_logging LOG_FILE w of
        Inl msg \<Rightarrow>
          (- 1, put_err (string_format 256 ''Error: Could not initialize logging: %s\<newline>'' [S msg]) w)
      | Inr w1 \<Rightarrow>
          (case fault e In_init_logging Close of
             Some msg \<Rightarrow>
               (- 1, put_err (string_format 256 ''Error: Could not close log file: %s\<newline>'' [S msg]) w1)
           | None \<Rightarrow> (0, w1)))\<close>

text \<open>The line \<open>log_operation\<close> writes: the timestamp, a space, the message, a newline.\<close>

definition log_entry :: "string \<Rightarrow> string \<Rightarrow> string" where
  \<open>log_entry timestamp message =
     string_format 512 ''%s %s\<newline>'' [S timestamp, S message]\<close>

definition log_operation :: "env \<Rightarrow> string \<Rightarrow> world \<Rightarrow> int \<times> world" where
  \<open>log_operation e message w =
     (case sys_open_append e In_log_operation LOG_FILE w of
        Inl msg \<Rightarrow>
          (- 1, put_err (string_format 256 ''Error: Could not open log file: %s\<newline>'' [S msg]) w)
      | Inr u \<Rightarrow>
          (case fault e In_log_operation Flock of
             Some msg \<Rightarrow>
               (- 1, put_err (string_format 256 ''Error: Could not lock log file: %s\<newline>'' [S msg]) w)
           | None \<Rightarrow>
               (case get_timestamp e 64 w of
                  (timestamp, w1) \<Rightarrow>
                    (case sys_write e In_log_operation Write LOG_FILE (log_entry timestamp message) w1 of
                       Inl msg \<Rightarrow>
                         (- 1, put_err (string_format 256
                                 ''Error: Could not write to log file: %s\<newline>'' [S msg]) w1)
                     | Inr w2 \<Rightarrow>
                         (case fault e In_log_operation Funlock of
                            Some msg \<Rightarrow>
                              (- 1, put_err (string_format 256
                                      ''Error: Could not unlock log file: %s\<newline>'' [S msg]) w2)
                          | None \<Rightarrow>
                              (case fault e In_log_operation Close of
                                 Some msg \<Rightarrow>
                                   (- 1, put_err (string_format 256
                                           ''Error: Could not close log file: %s\<newline>'' [S msg]) w2)
                               | None \<Rightarrow> (0, w2)))))))\<close>

text \<open>
  The text that follows the header in \<open>read_file\<close> and \<open>show_logs\<close>: the buffer, and a
  newline if the buffer is not empty and does not end with one.
\<close>

definition put_buffer :: "string \<Rightarrow> world \<Rightarrow> world" where
  \<open>put_buffer buffer w =
     (let w1 = put_out buffer w in
      if length buffer > 0 \<and> buffer ! (length buffer - 1) \<noteq> CHR ''\<newline>''
      then put_out ''\<newline>'' w1 else w1)\<close>

definition show_logs :: "env \<Rightarrow> world \<Rightarrow> int \<times> world" where
  \<open>show_logs e w =
     (case map_of (fs w) (resolve e LOG_FILE) of
        None \<Rightarrow> (0, put_out ''No logs available.\<newline>'' w)
      | Some n \<Rightarrow>
     (case fault e In_show_logs Stat of
        Some msg \<Rightarrow>
          (- 1, put_err (string_format 256 ''Error: Could not access log file: %s\<newline>'' [S msg]) w)
      | None \<Rightarrow>
     (case sys_open_read e In_show_logs LOG_FILE w of
        Inl msg \<Rightarrow>
          (- 1, put_err (string_format 256 ''Error: Could not open log file: %s\<newline>'' [S msg]) w)
      | Inr u \<Rightarrow>
     (case fault e In_show_logs Flock of
        Some msg \<Rightarrow>
          (- 1, put_err (string_format 256 ''Error: Could not lock log file: %s\<newline>'' [S msg]) w)
      | None \<Rightarrow>
     (case sys_fstat e In_show_logs LOG_FILE w of
        Inl msg \<Rightarrow>
          (- 1, put_err (string_format 256 ''Error: Could not get log file size: %s\<newline>'' [S msg]) w)
      | Inr st_size \<Rightarrow>
          if st_size = 0 then (0, put_out ''Log file is empty.\<newline>'' w)
          else
     (case fault e In_show_logs Malloc of
        Some msg \<Rightarrow> (- 1, put_err ''Error: Memory allocation failed\<newline>'' w)
      | None \<Rightarrow>
     (case sys_read e In_show_logs LOG_FILE st_size w of
        Inl msg \<Rightarrow>
          (- 1, put_err (string_format 256 ''Error: Could not read log file: %s\<newline>'' [S msg]) w)
      | Inr buffer \<Rightarrow>
     (case fault e In_show_logs Funlock of
        Some msg \<Rightarrow>
          (- 1, put_err (string_format 256 ''Error: Could not unlock log file: %s\<newline>'' [S msg]) w)
      | None \<Rightarrow>
     (case fault e In_show_logs Close of
        Some msg \<Rightarrow>
          (- 1, put_err (string_format 256 ''Error: Could not close log file: %s\<newline>'' [S msg]) w)
      | None \<Rightarrow>
          (0, put_buffer buffer (put_out ''Operation Logs:\<newline>'' w)))))))))))\<close>

section \<open>File operations (fileops.c)\<close>

definition create_file :: "env \<Rightarrow> string \<Rightarrow> world \<Rightarrow> int \<times> world" where
  \<open>create_file e filename w =
     (if file_exists e w filename then
        (- 1, put_err (string_format 256 ''Error: File "%s" already exists.\<newline>'' [S filename]) w)
      else
     (case sys_create e In_create_file filename w of
        Inl msg \<Rightarrow>
          (- 1, put_err (string_format 256 ''Error: Could not create file "%s": %s\<newline>''
                  [S filename, S msg]) w)
      | Inr w1 \<Rightarrow>
     (case get_timestamp e 64 w1 of
        (timestamp, w2) \<Rightarrow>
     (case sys_write e In_create_file Write filename timestamp w2 of
        Inl msg \<Rightarrow>
          (- 1, put_err (string_format 256 ''Error: Could not write to file "%s": %s\<newline>''
                  [S filename, S msg]) w2)
      | Inr w3 \<Rightarrow>
     (case fault e In_create_file Close of
        Some msg \<Rightarrow>
          (- 1, put_err (string_format 256 ''Error: Could not close file "%s": %s\<newline>''
                  [S filename, S msg]) w3)
      | None \<Rightarrow>
          (case log_operation e
                  (string_format 256 ''File "%s" created successfully.'' [S filename]) w3 of
             (r, w4) \<Rightarrow>
               (0, put_out (string_format 256 ''File "%s" created successfully.\<newline>''
                      [S filename]) w4)))))))\<close>

definition read_file :: "env \<Rightarrow> string \<Rightarrow> world \<Rightarrow> int \<times> world" where
  \<open>read_file e filename w =
     (if \<not> file_exists e w filename then
        (- 1, put_err (string_format 256 ''Error: File "%s" not found.\<newline>'' [S filename]) w)
      else
     (case sys_open_read e In_read_file filename w of
        Inl msg \<Rightarrow>
          (- 1, put_err (string_format 256 ''Error: Could not open file "%s": %s\<newline>''
                  [S filename, S msg]) w)
      | Inr u \<Rightarrow>
     (case sys_fstat e In_read_file filename w of
        Inl msg \<Rightarrow>
          (- 1, put_err (string_format 256 ''Error: Could not get file size for "%s": %s\<newline>''
                  [S filename, S msg]) w)
      | Inr st_size \<Rightarrow>
     (case fault e In_read_file Malloc of
        Some msg \<Rightarrow> (- 1, put_err ''Error: Memory allocation failed\<newline>'' w)
      | None \<Rightarrow>
     (case sys_read e In_read_file filename st_size w of
        Inl msg \<Rightarrow>
          (- 1, put_err (string_format 256 ''Error: Could not read file "%s": %s\<newline>''
                  [S filename, S msg]) w)
      | Inr buffer \<Rightarrow>
     (case fault e In_read_file Close of
        Some msg \<Rightarrow>
          (- 1, put_err (string_format 256 ''Error: Could not close file "%s": %s\<newline>''
                  [S filename, S msg]) w)
      | None \<Rightarrow>
          (case log_operation e
                  (string_format 256 ''File "%s" read successfully.'' [S filename]) w of
             (r, w1) \<Rightarrow>
               (0, put_buffer buffer
                     (put_out (string_format 256 ''Contents of "%s":\<newline>'' [S filename]) w1)))))))))\<close>

text \<open>
  \<open>append_to_file\<close> of fileops.c: a newline and then the content, whatever the file
  holds. The two writes are one condition, so a content write that fails leaves the
  newline behind.
\<close>

definition append_to_file :: "env \<Rightarrow> string \<Rightarrow> string \<Rightarrow> world \<Rightarrow> int \<times> world" where
  \<open>append_to_file e filename content w =
     (if \<not> file_exists e w filename then
        (- 1, put_err (string_format 256 ''Error: File "%s" not found.\<newline>'' [S filename]) w)
      else
     (case sys_open_append e In_append_to_file filename w of
        Inl msg \<Rightarrow>
          (- 1, put_err (string_format 256 ''Error: Could not open file "%s": %s\<newline>''
                  [S filename, S msg]) w)
      | Inr u \<Rightarrow>
     (case fault e In_append_to_file Flock of
        Some msg \<Rightarrow>
          (- 1, put_err (string_format 256 ''Error: Could not lock file "%s": %s\<newline>''
                  [S filename, S msg]) w)
      | None \<Rightarrow>
     (case sys_write e In_append_to_file Write_newline filename ''\<newline>'' w of
        Inl msg \<Rightarrow>
          (- 1, put_err (string_format 256
                  ''Error: Cannot write to "%s". File is locked or read-only.\<newline>'' [S filename]) w)
      | Inr w1 \<Rightarrow>
     (case sys_write e In_append_to_file Write filename content w1 of
        Inl msg \<Rightarrow>
          (- 1, put_err (string_format 256
                  ''Error: Cannot write to "%s". File is locked or read-only.\<newline>'' [S filename]) w1)
      | Inr w2 \<Rightarrow>
     (case fault e In_append_to_file Funlock of
        Some msg \<Rightarrow>
          (- 1, put_err (string_format 256 ''Error: Could not unlock file "%s": %s\<newline>''
                  [S filename, S msg]) w2)
      | None \<Rightarrow>
     (case fault e In_append_to_file Close of
        Some msg \<Rightarrow>
          (- 1, put_err (string_format 256 ''Error: Could not close file "%s": %s\<newline>''
                  [S filename, S msg]) w2)
      | None \<Rightarrow>
          (case log_operation e
                  (string_format 256 ''Content appended to file "%s" successfully.'' [S filename]) w2 of
             (r, w3) \<Rightarrow>
               (0, put_out (string_format 256 ''Content appended to file "%s" successfully.\<newline>''
                      [S filename]) w3)))))))))\<close>

text \<open>
  A child process: \<open>None\<close> when it is killed, otherwise its exit status
  (\<open>EXIT_SUCCESS\<close> is 0, \<open>EXIT_FAILURE\<close> is 1) and the world it leaves.
\<close>

definition run_child ::
  "env \<Rightarrow> func \<Rightarrow> (world \<Rightarrow> int \<times> world) \<Rightarrow> world \<Rightarrow> int option \<times> world" where
  "run_child e f child w =
     (if fails e f Killed then (None, w)
      else case child w of (status, w1) \<Rightarrow> (Some status, w1))"

text \<open>
  The second \<open>append_to_file\<close> of the repository, which works in a child process and
  looks at the last byte of the file before it writes. The results of \<open>fstat\<close>, of the
  second \<open>lseek\<close> and of the write of the newline are not looked at by the C code.
\<close>

definition append_to_file_child :: "env \<Rightarrow> string \<Rightarrow> string \<Rightarrow> world \<Rightarrow> int \<times> world" where
  \<open>append_to_file_child e filename content w =
     (case sys_open_append e In_append_to_file filename w of
        Inl msg \<Rightarrow>
          (1, put_err (string_format 256 ''Error: Could not open file "%s": %s\<newline>''
                 [S filename, S msg]) w)
      | Inr u \<Rightarrow>
     (case fault e In_append_to_file Flock_wouldblock of
        Some msg \<Rightarrow>
          (1, put_err (string_format 256
                 ''Error: Cannot write to "%s". File is locked or read-only.\<newline>'' [S filename]) w)
      | None \<Rightarrow>
     (case fault e In_append_to_file Flock of
        Some msg \<Rightarrow>
          (1, put_err (string_format 256 ''Error: Could not lock file "%s": %s\<newline>''
                 [S filename, S msg]) w)
      | None \<Rightarrow>
          let w1 =
            (case map_of (fs w) (resolve e filename) of
               Some (Reg c) \<Rightarrow>
                 if length c > 0 \<and> \<not> fails e In_append_to_file Lseek
                    \<and> \<not> fails e In_append_to_file Read
                    \<and> c ! (length c - 1) \<noteq> CHR ''\<newline>''
                 then (case sys_write e In_append_to_file Write_newline filename ''\<newline>'' w of
                         Inl msg \<Rightarrow> w
                       | Inr w' \<Rightarrow> w')
                 else w
             | _ \<Rightarrow> w)
          in
     (case sys_write e In_append_to_file Write filename content w1 of
        Inl msg \<Rightarrow>
          (1, put_err (string_format 256 ''Error: Could not write to file "%s": %s\<newline>''
                 [S filename, S msg]) w1)
      | Inr w2 \<Rightarrow>
          (case log_operation e
                  (string_format 256 ''Content appended to file "%s".'' [S filename]) w2 of
             (r, w3) \<Rightarrow>
               (0, put_out (string_format 256 ''Content appended to file "%s" successfully.\<newline>''
                      [S filename]) w3))))))\<close>

definition append_to_file_forked :: "env \<Rightarrow> string \<Rightarrow> string \<Rightarrow> world \<Rightarrow> int \<times> world" where
  \<open>append_to_file_forked e filename content w =
     (if \<not> file_exists e w filename then
        (- 1, put_err (string_format 256 ''Error: File "%s" does not exist\<newline>'' [S filename]) w)
      else
     (case fault e In_append_to_file Fork of
        Some msg \<Rightarrow>
          (- 1, put_err (string_format 256 ''Error: Could not fork process: %s\<newline>'' [S msg]) w)
      | None \<Rightarrow>
          (case run_child e In_append_to_file (append_to_file_child e filename content) w of
             (Some status, w1) \<Rightarrow> (if status = 0 then 0 else - 1, w1)
           | (None, w1) \<Rightarrow>
               (- 1, put_err (string_format 256
                       ''Error: Child process terminated abnormally\<newline>'' []) w1))))\<close>

definition delete_file_child :: "env \<Rightarrow> string \<Rightarrow> world \<Rightarrow> int \<times> world" where
  \<open>delete_file_child e filename w =
     (case sys_unlink e In_delete_file filename w of
        Inl msg \<Rightarrow>
          (1, put_err (string_format 256 ''Error: Could not delete file "%s": %s\<newline>''
                 [S filename, S msg]) w)
      | Inr w1 \<Rightarrow> (0, w1))\<close>

definition delete_file :: "env \<Rightarrow> string \<Rightarrow> world \<Rightarrow> int \<times> world" where
  \<open>delete_file e filename w =
     (if \<not> file_exists e w filename then
        (- 1, put_err (string_format 256 ''Error: File "%s" not found.\<newline>'' [S filename]) w)
      else
     (case fault e In_delete_file Fork of
        Some msg \<Rightarrow>
          (- 1, put_err (string_format 256 ''Error: Could not create process: %s\<newline>'' [S msg]) w)
      | None \<Rightarrow>
          (case run_child e In_delete_file (delete_file_child e filename) w of
             (status, w1) \<Rightarrow>
               if status = Some 0 then
                 (case log_operation e
                         (string_format 256 ''File "%s" deleted successfully.'' [S filename]) w1 of
                    (r, w2) \<Rightarrow>
                      (0, put_out (string_format 256 ''File "%s" deleted successfully.\<newline>''
                             [S filename]) w2))
               else (- 1, w1))))\<close>

section \<open>Directory operations (dirops.c)\<close>

definition create_directory :: "env \<Rightarrow> string \<Rightarrow> world \<Rightarrow> int \<times> world" where
  \<open>create_directory e dirname w =
     (if directory_exists e w dirname then
        (- 1, put_err (string_format 256 ''Error: Directory "%s" already exists.\<newline>''
                [S dirname]) w)
      else
     (case sys_mkdir e In_create_directory dirname w of
        Inl msg \<Rightarrow>
          (- 1, put_err (string_format 256 ''Error: Could not create directory "%s": %s\<newline>''
                  [S dirname, S msg]) w)
      | Inr w1 \<Rightarrow>
          (case log_operation e
                  (string_format 256 ''Directory "%s" created successfully.'' [S dirname]) w1 of
             (r, w2) \<Rightarrow>
               (0, put_out (string_format 256 ''Directory "%s" created successfully.\<newline>''
                      [S dirname]) w2))))\<close>

text \<open>
  The loop of \<open>list_directory\<close> over the entries \<open>readdir\<close> returns: the count and the
  world after the writes. \<open>stat\<close> is called on the path as formatted into 512 bytes.
\<close>

fun list_loop :: "env \<Rightarrow> string \<Rightarrow> string list \<Rightarrow> nat \<Rightarrow> world \<Rightarrow> nat \<times> world" where
  \<open>list_loop e dirname [] count w = (count, w)\<close>
| \<open>list_loop e dirname (d_name # rest) count w =
     (if d_name = ''.'' \<or> d_name = ''..'' then list_loop e dirname rest count w
      else
        (case map_of (fs w) (resolve e (string_format 512 ''%s/%s'' [S dirname, S d_name])) of
           None \<Rightarrow> list_loop e dirname rest count w
         | Some Dir \<Rightarrow>
             list_loop e dirname rest (count + 1)
               (put_out (string_format 512 ''  [DIR] %s\<newline>'' [S d_name]) w)
         | Some (Reg c) \<Rightarrow>
             list_loop e dirname rest (count + 1)
               (put_out (string_format 512 ''  %s\<newline>'' [S d_name]) w)))\<close>

definition list_directory_child :: "env \<Rightarrow> string \<Rightarrow> world \<Rightarrow> int \<times> world" where
  \<open>list_directory_child e dirname w =
     (case sys_opendir e In_list_directory dirname w of
        Inl msg \<Rightarrow>
          (1, put_err (string_format 256 ''Error: Could not open directory "%s": %s\<newline>''
                 [S dirname, S msg]) w)
      | Inr entries \<Rightarrow>
          (case list_loop e dirname entries 0
                  (put_out (string_format 256 ''Contents of directory "%s":\<newline>'' [S dirname]) w) of
             (count, w1) \<Rightarrow>
               (0, if count = 0 then put_out ''  (empty directory)\<newline>'' w1 else w1)))\<close>

definition list_directory :: "env \<Rightarrow> string \<Rightarrow> world \<Rightarrow> int \<times> world" where
  \<open>list_directory e dirname w =
     (if \<not> directory_exists e w dirname then
        (- 1, put_err (string_format 256 ''Error: Directory "%s" not found.\<newline>'' [S dirname]) w)
      else
     (case fault e In_list_directory Fork of
        Some msg \<Rightarrow>
          (- 1, put_err (string_format 256 ''Error: Could not create process: %s\<newline>'' [S msg]) w)
      | None \<Rightarrow>
          (case run_child e In_list_directory (list_directory_child e dirname) w of
             (status, w1) \<Rightarrow>
               if status = Some 0 then
                 (case log_operation e
                         (string_format 256 ''Listed contents of directory "%s".'' [S dirname]) w1 of
                    (r, w2) \<Rightarrow> (0, w2))
               else (- 1, w1))))\<close>

text \<open>
  The test of \<open>list_files_by_extension\<close> on a name: it is longer than the extension and
  its last \<open>ext_len\<close> characters are the extension.
\<close>

definition has_extension :: "string \<Rightarrow> string \<Rightarrow> bool" where
  "has_extension d_name extension =
     (length d_name > length extension \<and>
      drop (length d_name - length extension) d_name = extension)"

fun ext_loop :: "env \<Rightarrow> string \<Rightarrow> string \<Rightarrow> string list \<Rightarrow> nat \<Rightarrow> world \<Rightarrow> nat \<times> world" where
  \<open>ext_loop e dirname extension [] count w = (count, w)\<close>
| \<open>ext_loop e dirname extension (d_name # rest) count w =
     (if d_name = ''.'' \<or> d_name = ''..'' then ext_loop e dirname extension rest count w
      else if has_extension d_name extension then
        (case map_of (fs w) (resolve e (string_format 512 ''%s/%s'' [S dirname, S d_name])) of
           None \<Rightarrow> ext_loop e dirname extension rest count w
         | Some Dir \<Rightarrow> ext_loop e dirname extension rest count w
         | Some (Reg c) \<Rightarrow>
             ext_loop e dirname extension rest (count + 1)
               (put_out (string_format 512 ''  %s\<newline>'' [S d_name]) w))
      else ext_loop e dirname extension rest count w)\<close>

definition list_files_by_extension_child ::
  "env \<Rightarrow> string \<Rightarrow> string \<Rightarrow> world \<Rightarrow> int \<times> world" where
  \<open>list_files_by_extension_child e dirname extension w =
     (case sys_opendir e In_list_files_by_extension dirname w of
        Inl msg \<Rightarrow>
          (1, put_err (string_format 256 ''Error: Could not open directory "%s": %s\<newline>''
                 [S dirname, S msg]) w)
      | Inr entries \<Rightarrow>
          (case ext_loop e dirname extension entries 0
                  (put_out (string_format 256 ''Files with extension "%s" in directory "%s":\<newline>''
                     [S extension, S dirname]) w) of
             (count, w1) \<Rightarrow>
               (0, if count = 0
                   then put_out (string_format 256
                          ''No files with extension "%s" found in "%s".\<newline>''
                          [S extension, S dirname]) w1
                   else w1)))\<close>

definition list_files_by_extension :: "env \<Rightarrow> string \<Rightarrow> string \<Rightarrow> world \<Rightarrow> int \<times> world" where
  \<open>list_files_by_extension e dirname extension w =
     (if \<not> directory_exists e w dirname then
        (- 1, put_err (string_format 256 ''Error: Directory "%s" not found.\<newline>'' [S dirname]) w)
      else
     (case fault e In_list_files_by_extension Fork of
        Some msg \<Rightarrow>
          (- 1, put_err (string_format 256 ''Error: Could not create process: %s\<newline>'' [S msg]) w)
      | None \<Rightarrow>
          (case run_child e In_list_files_by_extension
                  (list_files_by_extension_child e dirname extension) w of
             (status, w1) \<Rightarrow>
               if status = Some 0 then
                 (case log_operation e
                         (string_format 256 ''Listed files with extension "%s" in directory "%s".''
                            [S extension, S dirname]) w1 of
                    (r, w2) \<Rightarrow> (0, w2))
               else (- 1, w1))))\<close>

text \<open>The loop of \<open>delete_directory\<close>: is there an entry besides the two references?\<close>

fun is_empty_loop :: "string list \<Rightarrow> bool" where
  \<open>is_empty_loop [] = True\<close>
| \<open>is_empty_loop (d_name # rest) =
     (if d_name \<noteq> ''.'' \<and> d_name \<noteq> ''..'' then False else is_empty_loop rest)\<close>

definition delete_directory_child :: "env \<Rightarrow> string \<Rightarrow> world \<Rightarrow> int \<times> world" where
  \<open>delete_directory_child e dirname w =
     (case sys_opendir e In_delete_directory dirname w of
        Inl msg \<Rightarrow>
          (1, put_err (string_format 256 ''Error: Could not open directory "%s": %s\<newline>''
                 [S dirname, S msg]) w)
      | Inr entries \<Rightarrow>
          if \<not> is_empty_loop entries then
            (1, put_err (string_format 256 ''Error: Directory "%s" is not empty.\<newline>''
                   [S dirname]) w)
          else
            (case sys_rmdir e In_delete_directory dirname w of
               Inl msg \<Rightarrow>
                 (1, put_err (string_format 256 ''Error: Could not delete directory "%s": %s\<newline>''
                        [S dirname, S msg]) w)
             | Inr w1 \<Rightarrow> (0, w1)))\<close>

definition delete_directory :: "env \<Rightarrow> string \<Rightarrow> world \<Rightarrow> int \<times> world" where
  \<open>delete_directory e dirname w =
     (if \<not> directory_exists e w dirname then
        (- 1, put_err (string_format 256 ''Error: Directory "%s" not found.\<newline>'' [S dirname]) w)
      else
     (case fault e In_delete_directory Fork of
        Some msg \<Rightarrow>
          (- 1, put_err (string_format 256 ''Error: Could not create process: %s\<newline>'' [S msg]) w)
      | None \<Rightarrow>
          (case run_child e In_delete_directory (delete_directory_child e dirname) w of
             (status, w1) \<Rightarrow>
               if status = Some 0 then
                 (case log_operation e
                         (string_format 256 ''Directory "%s" deleted successfully.'' [S dirname]) w1 of
                    (r, w2) \<Rightarrow>
                      (0, put_out (string_format 256 ''Directory "%s" deleted successfully.\<newline>''
                             [S dirname]) w2))
               else (- 1, w1))))\<close>

section \<open>The dispatcher and the entry point (fileManager.c)\<close>

definition help_text :: string where
  \<open>help_text =
     ''Usage: fileManager <command> [arguments]\<newline>\<newline>'' @
     ''Commands:\<newline>\<newline>'' @
     ''  createDir "folderName" - Create a new directory\<newline>\<newline>'' @
     ''  createFile "fileName" - Create a new file\<newline>\<newline>'' @
     ''  listDir "folderName" - List all files in a directory\<newline>\<newline>'' @
     ''  listFilesByExtension "folderName" ".txt" - List files with specific extension\<newline>\<newline>'' @
     ''  readFile "fileName" - Read a file's content\<newline>\<newline>'' @
     ''  appendToFile "fileName" "new content" - Append content to a file\<newline>\<newline>'' @
     ''  deleteFile "fileName" - Delete a file\<newline>\<newline>'' @
     ''  deleteDir "folderName" - Delete an empty directory\<newline>\<newline>'' @
     ''  showLogs - Display operation logs\<newline>\<newline>''\<close>

definition display_help :: "world \<Rightarrow> world" where
  "display_help w = put_out help_text w"

text \<open>
  \<open>execute_command\<close>: the list is the first \<open>arg_count\<close> entries of the array. The
  result is 0 on success, 1 to leave the program, \<open>-1\<close> on an error.
\<close>

definition execute_command :: "env \<Rightarrow> string list \<Rightarrow> world \<Rightarrow> int \<times> world" where
  \<open>execute_command e as w =
     (if length as = 0 then (0, w)
      else if as ! 0 = ''createDir'' then
        (if length as \<noteq> 2
         then (- 1, put_err ''Error: createDir requires one argument\<newline>'' w)
         else create_directory e (as ! 1) w)
      else if as ! 0 = ''createFile'' then
        (if length as \<noteq> 2
         then (- 1, put_err ''Error: createFile requires one argument\<newline>'' w)
         else create_file e (as ! 1) w)
      else if as ! 0 = ''listDir'' then
        (if length as \<noteq> 2
         then (- 1, put_err ''Error: listDir requires one argument\<newline>'' w)
         else list_directory e (as ! 1) w)
      else if as ! 0 = ''listFilesByExtension'' then
        (if length as \<noteq> 3
         then (- 1, put_err ''Error: listFilesByExtension requires two arguments\<newline>'' w)
         else list_files_by_extension e (as ! 1) (as ! 2) w)
      else if as ! 0 = ''readFile'' then
        (if length as \<noteq> 2
         then (- 1, put_err ''Error: readFile requires one argument\<newline>'' w)
         else read_file e (as ! 1) w)
      else if as ! 0 = ''appendToFile'' then
        (if length as \<noteq> 3
         then (- 1, put_err ''Error: appendToFile requires two arguments\<newline>'' w)
         else append_to_file e (as ! 1) (as ! 2) w)
      else if as ! 0 = ''deleteFile'' then
        (if length as \<noteq> 2
         then (- 1, put_err ''Error: deleteFile requires one argument\<newline>'' w)
         else delete_file e (as ! 1) w)
      else if as ! 0 = ''deleteDir'' then
        (if length as \<noteq> 2
         then (- 1, put_err ''Error: deleteDir requires one argument\<newline>'' w)
         else delete_directory e (as ! 1) w)
      else if as ! 0 = ''showLogs'' then show_logs e w
      else if as ! 0 = ''exit'' \<or> as ! 0 = ''quit'' then (1, w)
      else if as ! 0 = ''help'' then (0, display_help w)
      else (- 1, put_err (string_format 100 ''Error: Unknown command '%s'\<newline>'' [S (as ! 0)]) w))\<close>

text \<open>
  \<open>main\<close> on the arguments after the program's name: the exit status
  (\<open>EXIT_SUCCESS\<close> is 0, \<open>EXIT_FAILURE\<close> is 1) and the world.
\<close>

definition main :: "env \<Rightarrow> string list \<Rightarrow> world \<Rightarrow> int \<times> world" where
  \<open>main e argv w =
     (case init_logging e w of
        (r, w1) \<Rightarrow>
          if length argv = 0 then (0, display_help w1)
          else if length argv > MAX_ARGS
          then (1, put_err ''Error: Too many arguments\<newline>'' w1)
          else if fails e In_main Malloc
          then (1, put_err ''Error: Memory allocation failed\<newline>'' w1)
          else
            (case execute_command e argv w1 of
               (result, w2) \<Rightarrow> (if result < 0 then 1 else 0, w2)))\<close>

section \<open>Example worlds\<close>

text \<open>An empty log, a file, and a directory with one file in it.\<close>

definition shelf :: world where
  "shelf = \<lparr> fs = [(''log.txt'', Reg []), (''a.txt'', Reg ''abc''), (''d'', Dir), (''d/a.txt'', Reg ''y'')],
             out = [], err = [], ticks = 0 \<rparr>"

text \<open>Nothing at all, not even a log.\<close>

definition bare :: world where
  "bare = \<lparr> fs = [], out = [], err = [], ticks = 0 \<rparr>"

text \<open>An empty log, a file that ends with a newline, and an empty file.\<close>

definition desk :: world where
  "desk = \<lparr> fs = [(''log.txt'', Reg []), (''a.txt'', Reg ''abc\<newline>''), (''e.txt'', Reg [])],
             out = [], err = [], ticks = 0 \<rparr>"

text \<open>
  A directory with a file whose whole name is \<open>.txt\<close>, a file \<open>a.txt\<close>, a file with the
  extension in capitals, and a directory whose name ends with \<open>.txt\<close>.
\<close>

definition attic :: world where
  "attic = \<lparr> fs = [(''log.txt'', Reg []), (''d'', Dir), (''d/.txt'', Reg ''x''),
                    (''d/a.txt'', Reg ''y''), (''d/b.TXT'', Reg ''z''), (''d/c.txt'', Dir)],
             out = [], err = [], ticks = 0 \<rparr>"

section \<open>Facts about \<open>string_format\<close>\<close>

lemma sf_copy_take:
  "length buf \<le> sz - 1 \<Longrightarrow> sf_copy sz buf str = take (sz - 1) (buf @ str)"
proof (induction str arbitrary: buf)
  case Nil
  then show ?case by simp
next
  case (Cons c str)
  show ?case
  proof (cases "length buf < sz - 1")
    case True
    then have "sf_copy sz (buf @ [c]) str = take (sz - 1) ((buf @ [c]) @ str)"
      by (intro Cons.IH) simp
    with True show ?thesis by simp
  next
    case False
    with Cons.prems show ?thesis by simp
  qed
qed

lemma sf_int_take:
  assumes "length buf < sz - 1"
  shows "sf_int sz buf v = take (sz - 1) (buf @ show_int v)"
proof (cases "sint v < 0")
  case True
  show ?thesis
  proof (cases "length (buf @ ''-'') \<ge> sz - 1")
    case full: True
    with assms have "sz - 1 - length buf = 1" by simp
    with True full show ?thesis
      by (simp add: sf_int_def show_int_def Let_def)
  next
    case False
    then have "length (buf @ ''-'') \<le> sz - 1" by simp
    from sf_copy_take [OF this] True False show ?thesis
      by (simp add: sf_int_def show_int_def Let_def)
  qed
next
  case False
  from assms have "length buf \<le> sz - 1" by simp
  from sf_copy_take [OF this] False assms show ?thesis
    by (simp add: sf_int_def show_int_def Let_def)
qed

lemma take_take_append: "take n (take n xs @ ys) = take n (xs @ ys)"
  by (cases "n \<le> length xs") (simp_all add: min_def)

lemma sf_loop_take:
  "length buf \<le> sz - 1 \<Longrightarrow> sf_loop sz fmt as buf = take (sz - 1) (buf @ expand fmt as)"
proof (induction sz fmt as buf rule: sf_loop.induct)
  case (1 sz as buf)
  then show ?case by simp
next
  case (2 sz c as buf)
  then show ?case by simp
next
  case (3 sz c d fmt as buf)
  show ?case
  proof (cases "length buf < sz - 1")
    case False
    with "3.prems" show ?thesis by simp
  next
    case room: True
    have len1: "length (buf @ [x]) \<le> sz - 1" for x
      using room by simp
    have lens: "length (sf_copy sz buf str) \<le> sz - 1" for str
      using room by (simp add: sf_copy_take)
    have leni: "length (sf_int sz buf v) \<le> sz - 1" for v
      using room by (simp add: sf_int_take)
    show ?thesis
    proof (cases "c = CHR ''%''")
      case False
      with room "3.IH"(5) len1 show ?thesis by simp
    next
      case pc: True
      consider (s) "d = CHR ''s''" | (d) "d = CHR ''d''" | (p) "d = CHR ''%''"
        | (other) "d \<noteq> CHR ''s''" "d \<noteq> CHR ''d''" "d \<noteq> CHR ''%''"
        by blast
      then show ?thesis
      proof cases
        case s
        show ?thesis
        proof (cases as)
          case Nil
          with room pc s show ?thesis by simp
        next
          case (Cons a rest)
          show ?thesis
          proof (cases a)
            case (S str)
            from room have "sf_copy sz buf str = take (sz - 1) (buf @ str)"
              by (simp add: sf_copy_take)
            moreover from "3.IH"(1) lens room pc s Cons S
            have "sf_loop sz fmt rest (sf_copy sz buf str) =
                  take (sz - 1) (sf_copy sz buf str @ expand fmt rest)"
              by simp
            ultimately have "sf_loop sz fmt rest (sf_copy sz buf str) =
                  take (sz - 1) ((buf @ str) @ expand fmt rest)"
              by (simp only: take_take_append)
            with room pc s Cons S show ?thesis by simp
          next
            case (D v)
            with room pc s Cons show ?thesis by simp
          qed
        qed
      next
        case d
        show ?thesis
        proof (cases as)
          case Nil
          with room pc d show ?thesis by simp
        next
          case (Cons a rest)
          show ?thesis
          proof (cases a)
            case (S str)
            with room pc d Cons show ?thesis by simp
          next
            case (D v)
            from room have "sf_int sz buf v = take (sz - 1) (buf @ show_int v)"
              by (simp add: sf_int_take)
            moreover from "3.IH"(2) leni room pc d Cons D
            have "sf_loop sz fmt rest (sf_int sz buf v) =
                  take (sz - 1) (sf_int sz buf v @ expand fmt rest)"
              by simp
            ultimately have "sf_loop sz fmt rest (sf_int sz buf v) =
                  take (sz - 1) ((buf @ show_int v) @ expand fmt rest)"
              by (simp only: take_take_append)
            with room pc d Cons D show ?thesis by simp
          qed
        qed
      next
        case p
        from "3.IH"(3) len1 room pc p show ?thesis by simp
      next
        case other
        from "3.IH"(4) len1 room pc other show ?thesis by simp
      qed
    qed
  qed
qed

lemma string_format_take:
  "string_format sz fmt as = take (sz - 1) (expand fmt as)"
  by (cases "sz = 0") (simp_all add: string_format_def sf_loop_take)

section \<open>Facts about the parser\<close>

lemma no_args_eq: "no_args = [None, None, None, None]"
  by (simp add: no_args_def MAX_ARGS_def numeral_eq_Suc)

lemma quote_free_update:
  assumes "quote_free s" and "CHR 0x22 \<notin> set t"
  shows "quote_free (s\<lparr> args := (args s)[k := Some t] \<rparr>)"
proof -
  have "set ((args s)[k := Some t]) \<subseteq> insert (Some t) (set (args s))"
    by (rule set_update_subset_insert)
  with assms show ?thesis
    unfolding quote_free_def by auto
qed

lemma quote_free_slot:
  "quote_free s \<Longrightarrow> k < length (args s) \<Longrightarrow> args s ! k = Some t \<Longrightarrow> CHR 0x22 \<notin> set t"
  unfolding quote_free_def by (metis nth_mem)

lemma store_quote_free:
  assumes "quote_free s" and "c \<noteq> CHR 0x22" and "store s c = Inr s1"
  shows "quote_free s1"
proof -
  from assms(3) obtain buf where k: "arg_count s < length (args s)"
    and b: "args s ! arg_count s = Some buf"
    and s1: "s1 = s\<lparr> args := (args s)[arg_count s := Some (take (j s) buf @ [c])] \<rparr>"
    by (auto simp: store_def split: if_splits option.splits)
  have "CHR 0x22 \<notin> set buf" using quote_free_slot [OF assms(1) k b] .
  then have "CHR 0x22 \<notin> set (take (j s) buf @ [c])"
    using assms(2) by (auto dest: in_set_takeD)
  then show ?thesis unfolding s1 by (rule quote_free_update [OF assms(1)])
qed

lemma terminate_quote_free:
  assumes "quote_free s" and "terminate s = Inr s1"
  shows "quote_free s1"
proof -
  from assms(2) obtain buf where k: "arg_count s < length (args s)"
    and b: "args s ! arg_count s = Some buf"
    and s1: "s1 = s\<lparr> args := (args s)[arg_count s := Some (take (j s) buf)] \<rparr>"
    by (auto simp: terminate_def split: if_splits option.splits)
  have "CHR 0x22 \<notin> set buf" using quote_free_slot [OF assms(1) k b] .
  then have "CHR 0x22 \<notin> set (take (j s) buf)"
    by (auto dest: in_set_takeD)
  then show ?thesis unfolding s1 by (rule quote_free_update [OF assms(1)])
qed

lemma quote_free_fields [simp]:
  "quote_free (s\<lparr> in_quotes := b \<rparr>) = quote_free s"
  "quote_free (s\<lparr> j := n \<rparr>) = quote_free s"
  "quote_free (s\<lparr> arg_count := k \<rparr>) = quote_free s"
  by (simp_all add: quote_free_def)

lemma parse_loop_quote_free:
  "quote_free s \<Longrightarrow> parse_loop e cs s = Inr s' \<Longrightarrow> quote_free s'"
proof (induction cs arbitrary: s)
  case Nil
  then show ?case by simp
next
  case (Cons c cs)
  show ?case
  proof (cases "c = CHR ''\<newline>''")
    case True
    with Cons.prems show ?thesis by simp
  next
    case nl: False
    show ?thesis
    proof (cases "c = CHR 0x22")
      case True
      with nl Cons.prems Cons.IH [of "s\<lparr> in_quotes := \<not> in_quotes s \<rparr>"] show ?thesis
        by simp
    next
      case q: False
      show ?thesis
      proof (cases "c = CHR '' '' \<and> \<not> in_quotes s")
        case True
        show ?thesis
        proof (cases "j s > 0")
          case False
          with True nl q Cons.prems Cons.IH [of s] show ?thesis by simp
        next
          case jpos: True
          from Cons.prems(2) True nl q jpos obtain s1 where t: "terminate s = Inr s1"
            by (auto split: sum.splits)
          have qf1: "quote_free s1" using terminate_quote_free [OF Cons.prems(1) t] .
          let ?s2 = "s1\<lparr> arg_count := arg_count s1 + 1 \<rparr>"
          show ?thesis
          proof (cases "arg_count ?s2 \<ge> MAX_ARGS")
            case True
            with Cons.prems(2) \<open>c = CHR '' '' \<and> \<not> in_quotes s\<close> nl q jpos t qf1
            show ?thesis by (auto simp: Let_def)
          next
            case False
            let ?s3 = "?s2\<lparr> args := (args ?s2)[arg_count ?s2 := Some []], j := 0 \<rparr>"
            have "quote_free (?s2\<lparr> args := (args ?s2)[arg_count ?s2 := Some []] \<rparr>)"
              by (rule quote_free_update) (use qf1 in simp_all)
            then have qf3: "quote_free ?s3" by simp
            from Cons.prems(2) \<open>c = CHR '' '' \<and> \<not> in_quotes s\<close> nl q jpos t False
            have "parse_loop e cs ?s3 = Inr s'"
              by (auto simp: Let_def split: if_splits)
            from Cons.IH [OF qf3 this] show ?thesis .
          qed
        qed
      next
        case False
        from Cons.prems(2) False nl q obtain s1 where st: "store s c = Inr s1"
          and rest: "parse_loop e cs (s1\<lparr> j := j s1 + 1 \<rparr>) = Inr s'"
          by (auto split: sum.splits)
        have "quote_free s1" using store_quote_free [OF Cons.prems(1) q st] .
        then have "quote_free (s1\<lparr> j := j s1 + 1 \<rparr>)" by simp
        from Cons.IH [OF this rest] show ?thesis .
      qed
    qed
  qed
qed

lemma quote_free_init:
  "quote_free \<lparr> arg_count = 0, in_quotes = False, j = 0, args = (free_args as)[0 := Some []] \<rparr>"
proof -
  have "set ((free_args as)[0 := Some []]) \<subseteq> insert (Some []) (set (free_args as))"
    by (rule set_update_subset_insert)
  moreover have "set (free_args as) \<subseteq> {None}"
    by (auto simp: free_args_def)
  ultimately show ?thesis
    unfolding quote_free_def by auto
qed

lemma parse_command_quote_free:
  assumes "parse_command e input as = Inr (n, ts)" and "Some t \<in> set ts"
  shows "CHR 0x22 \<notin> set t"
proof -
  let ?s0 = "\<lparr> arg_count = 0, in_quotes = False, j = 0, args = (free_args as)[0 := Some []] \<rparr>"
  from assms(1) obtain s where loop: "parse_loop e input ?s0 = Inr s"
    by (auto simp: parse_command_def Let_def split: if_splits sum.splits)
  have qf: "quote_free s" using parse_loop_quote_free [OF quote_free_init loop] .
  show ?thesis
  proof (cases "j s > 0")
    case True
    with assms(1) loop obtain s1 where t: "terminate s = Inr s1" and ts: "ts = args s1"
      by (auto simp: parse_command_def Let_def split: if_splits sum.splits)
    from terminate_quote_free [OF qf t] assms(2) ts show ?thesis
      by (auto simp: quote_free_def)
  next
    case False
    with assms(1) loop have "ts = args s \<or> ts = (args s)[arg_count s := None]"
      by (auto simp: parse_command_def Let_def split: if_splits sum.splits)
    moreover have "set ((args s)[arg_count s := None]) \<subseteq> insert None (set (args s))"
      by (rule set_update_subset_insert)
    ultimately have "Some t \<in> set (args s)" using assms(2) by auto
    with qf show ?thesis by (auto simp: quote_free_def)
  qed
qed

lemma parse_loop_quoted:
  assumes "CHR 0x22 \<notin> set cs" and "CHR ''\<newline>'' \<notin> set cs"
    and "in_quotes s" and "arg_count s < length (args s)"
    and "args s ! arg_count s = Some buf" and "j s = length buf"
    and "length buf + length cs < MAX_ARG_SIZE"
  shows "parse_loop e (cs @ rest) s =
         parse_loop e rest
           (s\<lparr> args := (args s)[arg_count s := Some (buf @ cs)], j := length buf + length cs \<rparr>)"
  using assms
proof (induction cs arbitrary: s buf)
  case Nil
  then have "s\<lparr> args := (args s)[arg_count s := Some buf], j := length buf \<rparr> = s"
    by (simp add: list_update_same_conv)
  then show ?case by simp
next
  case (Cons c cs)
  let ?s1 = "s\<lparr> args := (args s)[arg_count s := Some (buf @ [c])] \<rparr>"
  have st: "store s c = Inr ?s1"
    using Cons.prems by (simp add: store_def)
  have c: "c \<noteq> CHR 0x22" "c \<noteq> CHR ''\<newline>''"
    using Cons.prems by auto
  have step: "parse_loop e ((c # cs) @ rest) s = parse_loop e (cs @ rest) (?s1\<lparr> j := j ?s1 + 1 \<rparr>)"
    using Cons.prems(3) st c by simp
  have "parse_loop e (cs @ rest) (?s1\<lparr> j := j ?s1 + 1 \<rparr>) =
        parse_loop e rest
          ((?s1\<lparr> j := j ?s1 + 1 \<rparr>)\<lparr> args := (args (?s1\<lparr> j := j ?s1 + 1 \<rparr>))
              [arg_count (?s1\<lparr> j := j ?s1 + 1 \<rparr>) := Some ((buf @ [c]) @ cs)],
            j := length (buf @ [c]) + length cs \<rparr>)"
    by (rule Cons.IH) (use Cons.prems in simp_all)
  with step show ?case by simp
qed

lemma take_Suc_take_snoc: "take (Suc n) (take n xs @ [c]) = take n xs @ [c]"
  by simp

text \<open>
  Inside quotes, in any state of the loop: the characters up to the next double quote,
  spaces among them, all go into the token that is being filled, and no token ends.
\<close>

lemma parse_loop_quoted_span:
  assumes "CHR 0x22 \<notin> set (c # cs)" and "CHR ''\<newline>'' \<notin> set (c # cs)"
    and "in_quotes s" and "arg_count s < length (args s)"
    and "args s ! arg_count s = Some buf"
    and "j s + length (c # cs) \<le> MAX_ARG_SIZE"
  shows "parse_loop e ((c # cs) @ rest) s =
         parse_loop e rest
           (s\<lparr> args := (args s)[arg_count s := Some (take (j s) buf @ c # cs)],
               j := j s + length (c # cs) \<rparr>)"
  using assms
proof (induction cs arbitrary: c s buf)
  case Nil
  then show ?case by (simp add: store_def)
next
  case (Cons c' cs)
  let ?s1 = "s\<lparr> args := (args s)[arg_count s := Some (take (j s) buf @ [c])], j := j s + 1 \<rparr>"
  have c: "c \<noteq> CHR 0x22" "c \<noteq> CHR ''\<newline>''"
    using Cons.prems by auto
  have step: "parse_loop e ((c # c' # cs) @ rest) s = parse_loop e ((c' # cs) @ rest) ?s1"
    using Cons.prems c by (simp add: store_def)
  have "parse_loop e ((c' # cs) @ rest) ?s1 =
        parse_loop e rest
          (?s1\<lparr> args := (args ?s1)[arg_count ?s1 :=
                    Some (take (j ?s1) (take (j s) buf @ [c]) @ c' # cs)],
                j := j ?s1 + length (c' # cs) \<rparr>)"
    by (rule Cons.IH) (use Cons.prems in simp_all)
  with step show ?case by (simp add: take_Suc_take_snoc)
qed

lemma parse_command_quoted:
  assumes "\<not> fails e In_parse_command Malloc" and "cs \<noteq> []" and "length cs < MAX_ARG_SIZE"
    and "CHR 0x22 \<notin> set cs" and "CHR ''\<newline>'' \<notin> set cs"
  shows "parse_command e (CHR 0x22 # cs @ [CHR 0x22]) no_args = Inr (1, [Some cs, None, None, None])"
proof -
  let ?s = "\<lparr> arg_count = 0, in_quotes = True, j = 0, args = [Some [], None, None, None] \<rparr>"
  have "parse_loop e (cs @ [CHR 0x22]) ?s =
        parse_loop e [CHR 0x22]
          (?s\<lparr> args := (args ?s)[arg_count ?s := Some ([] @ cs)], j := length ([]::string) + length cs \<rparr>)"
    by (rule parse_loop_quoted) (use assms in simp_all)
  then show ?thesis
    using assms by (simp add: parse_command_def no_args_eq free_args_def terminate_def Let_def)
qed

lemma parse_loop_plain_overflow:
  assumes "CHR 0x22 \<notin> set cs" and "CHR ''\<newline>'' \<notin> set cs" and "CHR '' '' \<notin> set cs"
    and "arg_count s < length (args s)" and "args s ! arg_count s = Some buf"
    and "j s \<le> MAX_ARG_SIZE" and "MAX_ARG_SIZE < j s + length cs"
  shows "parse_loop e cs s = Inl Buffer_overflow"
  using assms
proof (induction cs arbitrary: s buf)
  case Nil
  then show ?case by simp
next
  case (Cons c cs)
  have c: "c \<noteq> CHR 0x22" "c \<noteq> CHR ''\<newline>''" "c \<noteq> CHR '' ''"
    using Cons.prems by auto
  show ?case
  proof (cases "j s < MAX_ARG_SIZE")
    case False
    with Cons.prems(4,5) c show ?thesis by (simp add: store_def)
  next
    case True
    let ?s1 = "s\<lparr> args := (args s)[arg_count s := Some (take (j s) buf @ [c])] \<rparr>"
    have st: "store s c = Inr ?s1"
      using Cons.prems True by (simp add: store_def)
    have "parse_loop e cs (?s1\<lparr> j := j ?s1 + 1 \<rparr>) = Inl Buffer_overflow"
      by (rule Cons.IH [where buf = "take (j s) buf @ [c]"]) (use Cons.prems True in simp_all)
    with st c show ?thesis by simp
  qed
qed

text \<open>
  C4. The line \<open>createFile "my file.txt"\<close> parses to two tokens, \<open>createFile\<close> and
  \<open>my file.txt\<close>, the space kept and the quotes gone; the line \<open>a b "c d"\<close> parses to
  three. For every line and at every point of it: a double quote flips the quoted state
  and is not stored; no token of a result holds a double quote; inside quotes the
  characters up to the next double quote, spaces among them, are stored in the token
  that is being filled, as long as they fit its buffer, and the count of tokens and the
  quoted state stay as they are; and a line that is one quoted span is one token.
\<close>

theorem parse_command_quoting:
  "parse_command calm ''createFile \"my file.txt\"'' no_args =
     Inr (2, [Some ''createFile'', Some ''my file.txt'', None, None]) \<and>
   parse_command calm ''a b \"c d\"'' no_args =
     Inr (3, [Some ''a'', Some ''b'', Some ''c d'', None]) \<and>
   (\<forall>e rest s.
      parse_loop e (CHR 0x22 # rest) s = parse_loop e rest (s\<lparr> in_quotes := \<not> in_quotes s \<rparr>)) \<and>
   (\<forall>e input as n ts t.
      parse_command e input as = Inr (n, ts) \<longrightarrow> Some t \<in> set ts \<longrightarrow> CHR 0x22 \<notin> set t) \<and>
   (\<forall>e s buf cs rest.
      in_quotes s \<longrightarrow> arg_count s < length (args s) \<longrightarrow> args s ! arg_count s = Some buf \<longrightarrow>
      cs \<noteq> [] \<longrightarrow> CHR 0x22 \<notin> set cs \<longrightarrow> CHR ''\<newline>'' \<notin> set cs \<longrightarrow>
      j s + length cs \<le> MAX_ARG_SIZE \<longrightarrow>
      parse_loop e (cs @ rest) s =
        parse_loop e rest
          (s\<lparr> args := (args s)[arg_count s := Some (take (j s) buf @ cs)],
              j := j s + length cs \<rparr>)) \<and>
   (\<forall>e cs.
      \<not> fails e In_parse_command Malloc \<longrightarrow> cs \<noteq> [] \<longrightarrow> length cs < MAX_ARG_SIZE \<longrightarrow>
      CHR 0x22 \<notin> set cs \<longrightarrow> CHR ''\<newline>'' \<notin> set cs \<longrightarrow>
      parse_command e (CHR 0x22 # cs @ [CHR 0x22]) no_args = Inr (1, [Some cs, None, None, None]))"
proof (intro conjI allI impI)
  show "parse_command calm ''createFile \"my file.txt\"'' no_args =
     Inr (2, [Some ''createFile'', Some ''my file.txt'', None, None])"
    by (simp add: parse_command_def calm_def fails_def no_args_eq MAX_ARGS_def MAX_ARG_SIZE_def
        free_args_def store_def terminate_def Let_def)
next
  show "parse_command calm ''a b \"c d\"'' no_args =
     Inr (3, [Some ''a'', Some ''b'', Some ''c d'', None])"
    by (simp add: parse_command_def calm_def fails_def no_args_eq MAX_ARGS_def MAX_ARG_SIZE_def
        free_args_def store_def terminate_def Let_def)
next
  fix e rest s
  show "parse_loop e (CHR 0x22 # rest) s = parse_loop e rest (s\<lparr> in_quotes := \<not> in_quotes s \<rparr>)"
    by simp
next
  fix e input as n ts t
  assume "parse_command e input as = Inr (n, ts)" and "Some t \<in> set ts"
  then show "CHR 0x22 \<notin> set t"
    by (rule parse_command_quote_free)
next
  fix e and s :: pstate and buf cs rest
  assume a: "in_quotes s" "arg_count s < length (args s)" "args s ! arg_count s = Some buf"
    "cs \<noteq> []" "CHR 0x22 \<notin> set cs" "CHR ''\<newline>'' \<notin> set cs" "j s + length cs \<le> MAX_ARG_SIZE"
  from a(4) obtain c cs' where cs: "cs = c # cs'"
    by (cases cs) auto
  from a show "parse_loop e (cs @ rest) s =
        parse_loop e rest
          (s\<lparr> args := (args s)[arg_count s := Some (take (j s) buf @ cs)],
              j := j s + length cs \<rparr>)"
    unfolding cs by (intro parse_loop_quoted_span) simp_all
next
  fix e cs
  assume "\<not> fails e In_parse_command Malloc" "cs \<noteq> []" "length cs < MAX_ARG_SIZE"
    "CHR 0x22 \<notin> set cs" "CHR ''\<newline>'' \<notin> set cs"
  then show "parse_command e (CHR 0x22 # cs @ [CHR 0x22]) no_args =
      Inr (1, [Some cs, None, None, None])"
    by (rule parse_command_quoted)
qed

theorem parse_command_quoting_witness:
  "parse_command calm ''\"a b  c\"'' no_args = Inr (1, [Some ''a b  c'', None, None, None]) \<and>
   parse_command calm ''x \"y z\"'' no_args = Inr (2, [Some ''x'', Some ''y z'', None, None]) \<and>
   CHR 0x22 \<notin> set ''y z'' \<and>
   parse_loop calm ''c d\"''
     \<lparr> arg_count = 2, in_quotes = True, j = 0, args = [Some ''a'', Some ''b'', Some [], None] \<rparr> =
   Inr \<lparr> arg_count = 2, in_quotes = False, j = 3,
         args = [Some ''a'', Some ''b'', Some ''c d'', None] \<rparr>"
proof -
  have ok: "\<not> fails calm In_parse_command Malloc"
    by (simp add: calm_def fails_def)
  have a: "parse_command calm ''\"a b  c\"'' no_args = Inr (1, [Some ''a b  c'', None, None, None])"
    using parse_command_quoting [THEN conjunct2, THEN conjunct2, THEN conjunct2, THEN conjunct2,
        THEN conjunct2, rule_format, of calm "''a b  c''"] ok
    by (simp add: MAX_ARG_SIZE_def)
  have b: "parse_command calm ''x \"y z\"'' no_args = Inr (2, [Some ''x'', Some ''y z'', None, None])"
    by (simp add: parse_command_def calm_def fails_def no_args_eq MAX_ARGS_def MAX_ARG_SIZE_def
        free_args_def store_def terminate_def Let_def)
  have "Some ''y z'' \<in> set [Some ''x'', Some ''y z'', None, None]" by simp
  with parse_command_quoting [THEN conjunct2, THEN conjunct2, THEN conjunct2, THEN conjunct1,
      rule_format, OF b]
  have c: "CHR 0x22 \<notin> set ''y z''" .
  let ?s = "\<lparr> arg_count = 2, in_quotes = True, j = 0, args = [Some ''a'', Some ''b'', Some [], None] \<rparr>"
  have "parse_loop calm (''c d'' @ ''\"'') ?s =
      parse_loop calm ''\"''
        (?s\<lparr> args := (args ?s)[arg_count ?s := Some (take (j ?s) [] @ ''c d'')],
             j := j ?s + length ''c d'' \<rparr>)"
    by (rule parse_command_quoting [THEN conjunct2, THEN conjunct2, THEN conjunct2, THEN conjunct2,
          THEN conjunct1, rule_format, of ?s "[]" "''c d''" calm "''\"''"])
       (simp_all add: MAX_ARG_SIZE_def)
  then have d: "parse_loop calm ''c d\"'' ?s =
      Inr \<lparr> arg_count = 2, in_quotes = False, j = 3,
            args = [Some ''a'', Some ''b'', Some ''c d'', None] \<rparr>"
    by (simp add: numeral_3_eq_3)
  from a b c d show ?thesis by (simp only: simp_thms)
qed

text \<open>
  C5. Four tokens parse. On \<open>a b c d e\<close>, and already on \<open>a b c d\<close> followed by a
  space, the loop leaves at the fourth token with \<open>j\<close> still positive, so the code
  after the loop ends a token once more: it writes through \<open>args[4]\<close>, one past the
  array, and counts a fifth token.
\<close>

theorem parse_command_fifth_token:
  "parse_command calm ''a b c d'' no_args = Inr (4, [Some ''a'', Some ''b'', Some ''c'', Some ''d'']) \<and>
   parse_command calm ''a b c d e'' no_args = Inl Arg_index_out_of_bounds \<and>
   parse_command calm ''a b c d '' no_args = Inl Arg_index_out_of_bounds"
  by (simp add: parse_command_def calm_def fails_def no_args_eq MAX_ARGS_def MAX_ARG_SIZE_def
      free_args_def store_def terminate_def Let_def)

text \<open>
  C9. A token of 257 characters: the store of its last character is at index 256 of a
  buffer of 256 bytes.
\<close>

theorem parse_command_long_token:
  "parse_command calm (replicate 257 CHR ''a'') no_args = Inl Buffer_overflow"
proof -
  let ?s = "\<lparr> arg_count = 0, in_quotes = False, j = 0, args = [Some [], None, None, None] \<rparr>"
  have "parse_loop calm (replicate 257 CHR ''a'') ?s = Inl Buffer_overflow"
    by (rule parse_loop_plain_overflow [where buf = "[]"]) (simp_all add: MAX_ARG_SIZE_def)
  then show ?thesis
    by (simp add: parse_command_def no_args_eq free_args_def calm_def fails_def Let_def)
qed

section \<open>Facts about the world\<close>

lemma put_simps [simp]:
  "fs (put_out s w) = fs w" "err (put_out s w) = err w" "ticks (put_out s w) = ticks w"
  "out (put_out s w) = out w @ s"
  "fs (put_err s w) = fs w" "out (put_err s w) = out w" "ticks (put_err s w) = ticks w"
  "err (put_err s w) = err w @ s"
  by (simp_all add: put_out_def put_err_def)

lemma file_exists_iff: "file_exists e w p = (\<exists>c. map_of (fs w) (resolve e p) = Some (Reg c))"
  by (auto simp: file_exists_def split: option.splits node.splits)

lemma directory_exists_iff: "directory_exists e w p = (map_of (fs w) (resolve e p) = Some Dir)"
  by (auto simp: directory_exists_def split: option.splits node.splits)

lemma create_file_existing:
  "file_exists e w p \<Longrightarrow>
   create_file e p w =
     (- 1, w\<lparr> err := err w @ take 255 (''Error: File \"'' @ p @ ''\" already exists.\<newline>'') \<rparr>)"
  by (simp add: create_file_def put_err_def string_format_take)

lemma read_file_missing:
  "\<not> file_exists e w p \<Longrightarrow>
   read_file e p w =
     (- 1, w\<lparr> err := err w @ take 255 (''Error: File \"'' @ p @ ''\" not found.\<newline>'') \<rparr>)"
  by (simp add: read_file_def put_err_def string_format_take)

lemma append_to_file_missing:
  "\<not> file_exists e w p \<Longrightarrow>
   append_to_file e p c w =
     (- 1, w\<lparr> err := err w @ take 255 (''Error: File \"'' @ p @ ''\" not found.\<newline>'') \<rparr>)"
  by (simp add: append_to_file_def put_err_def string_format_take)

lemma append_to_file_forked_missing:
  "\<not> file_exists e w p \<Longrightarrow>
   append_to_file_forked e p c w =
     (- 1, w\<lparr> err := err w @ take 255 (''Error: File \"'' @ p @ ''\" does not exist\<newline>'') \<rparr>)"
  by (simp add: append_to_file_forked_def put_err_def string_format_take)

lemma delete_file_missing:
  "\<not> file_exists e w p \<Longrightarrow>
   delete_file e p w =
     (- 1, w\<lparr> err := err w @ take 255 (''Error: File \"'' @ p @ ''\" not found.\<newline>'') \<rparr>)"
  by (simp add: delete_file_def put_err_def string_format_take)

lemma create_directory_existing:
  "directory_exists e w d \<Longrightarrow>
   create_directory e d w =
     (- 1, w\<lparr> err := err w @ take 255 (''Error: Directory \"'' @ d @ ''\" already exists.\<newline>'') \<rparr>)"
  by (simp add: create_directory_def put_err_def string_format_take)

lemma delete_directory_missing:
  "\<not> directory_exists e w d \<Longrightarrow>
   delete_directory e d w =
     (- 1, w\<lparr> err := err w @ take 255 (''Error: Directory \"'' @ d @ ''\" not found.\<newline>'') \<rparr>)"
  by (simp add: delete_directory_def put_err_def string_format_take)

lemma is_empty_loop_iff: "is_empty_loop ns = (\<forall>n \<in> set ns. n = ''.'' \<or> n = ''..'')"
  by (induction ns) auto

lemma readdir_not_empty:
  assumes "filter (entry_of d) (map fst (fs w)) \<noteq> []"
  shows "\<not> is_empty_loop (readdir w d)"
proof -
  from assms obtain p where p: "p \<in> set (map fst (fs w))" "entry_of d p"
    by (metis filter_False list.set_map)
  then have "drop (length d + 1) p \<in> set (readdir w d)"
    by (auto simp: readdir_def)
  moreover from p(2) have "drop (length d + 1) p \<noteq> ''.''" "drop (length d + 1) p \<noteq> ''..''"
    by (simp_all add: entry_of_def)
  ultimately show ?thesis
    unfolding is_empty_loop_iff by blast
qed

lemma delete_directory_child_not_empty:
  assumes "directory_exists e w d" and "filter (entry_of (resolve e d)) (map fst (fs w)) \<noteq> []"
  shows "\<exists>m. delete_directory_child e d w = (1, w\<lparr> err := err w @ m \<rparr>)"
    and "\<not> fails e In_delete_directory Opendir \<Longrightarrow>
      delete_directory_child e d w =
        (1, w\<lparr> err := err w @ take 255 (''Error: Directory \"'' @ d @ ''\" is not empty.\<newline>'') \<rparr>)"
  using assms readdir_not_empty [OF assms(2)]
  by (auto simp: delete_directory_child_def sys_opendir_def directory_exists_iff put_err_def
      string_format_take fails_def split: option.splits)

lemma delete_directory_not_empty:
  assumes "directory_exists e w d" and "filter (entry_of (resolve e d)) (map fst (fs w)) \<noteq> []"
  shows "\<exists>m. delete_directory e d w = (- 1, w\<lparr> err := err w @ m \<rparr>)"
proof -
  from delete_directory_child_not_empty(1) [OF assms] obtain m
    where m: "delete_directory_child e d w = (1, w\<lparr> err := err w @ m \<rparr>)" by blast
  have "w = w\<lparr> err := err w @ [] \<rparr>" by simp
  then have triv: "\<exists>m. w = w\<lparr> err := err w @ m \<rparr>" by blast
  show ?thesis
    using assms(1) m triv
    by (auto simp: delete_directory_def run_child_def put_err_def split: option.splits)
qed

lemma delete_directory_not_empty_message:
  assumes "directory_exists e w d" and "filter (entry_of (resolve e d)) (map fst (fs w)) \<noteq> []"
    and "\<not> fails e In_delete_directory Fork" and "\<not> fails e In_delete_directory Killed"
    and "\<not> fails e In_delete_directory Opendir"
  shows "delete_directory e d w =
     (- 1, w\<lparr> err := err w @ take 255 (''Error: Directory \"'' @ d @ ''\" is not empty.\<newline>'') \<rparr>)"
  using assms delete_directory_child_not_empty(2) [OF assms(1,2,5)]
  by (simp add: delete_directory_def run_child_def fails_def)

lemma shelf_simps [simp]:
  "fs shelf = [(''log.txt'', Reg []), (''a.txt'', Reg ''abc''), (''d'', Dir), (''d/a.txt'', Reg ''y'')]"
  "out shelf = []" "err shelf = []" "ticks shelf = 0"
  by (simp_all add: shelf_def)

lemma quiet_calm [simp]: "quiet calm f"
  by (simp add: quiet_def calm_def)

lemma resolve_calm [simp]: "resolve calm = canonical"
  by (simp add: calm_def)

lemma canonical_simps [simp]:
  "canonical ''log.txt'' = ''log.txt''" "canonical ''./log.txt'' = ''log.txt''"
  "canonical ''a.txt'' = ''a.txt''" "canonical ''b.txt'' = ''b.txt''"
  "canonical ''e.txt'' = ''e.txt''" "canonical ''d'' = ''d''" "canonical ''x'' = ''x''"
  "canonical ''./d/'' = ''d''" "canonical ''nodir/f.txt'' = ''nodir/f.txt''"
  "canonical ''d/.txt'' = ''d/.txt''" "canonical ''d/a.txt'' = ''d/a.txt''"
  "canonical ''d/b.TXT'' = ''d/b.TXT''" "canonical ''d/c.txt'' = ''d/c.txt''"
  "canonical ''d/.'' = ''d''" "canonical ''d/..'' = ''d/..''"
  by (simp_all add: canonical_def)

lemma directory_not_file: "map_of (fs w) (resolve e p) = Some Dir \<Longrightarrow> \<not> file_exists e w p"
  by (simp add: file_exists_def)

lemma show_logs_no_file:
  "map_of (fs w) (resolve e LOG_FILE) = None \<Longrightarrow>
   show_logs e w = (0, w\<lparr> out := out w @ ''No logs available.\<newline>'' \<rparr>)"
  by (simp add: show_logs_def put_out_def)

lemma show_logs_empty:
  "map_of (fs w) (resolve e LOG_FILE) = Some (Reg []) \<Longrightarrow> quiet e In_show_logs \<Longrightarrow>
   show_logs e w = (0, w\<lparr> out := out w @ ''Log file is empty.\<newline>'' \<rparr>)"
  by (simp add: show_logs_def put_out_def quiet_def sys_open_read_def sys_fstat_def)

lemma show_logs_content:
  "map_of (fs w) (resolve e LOG_FILE) = Some (Reg c) \<Longrightarrow> c \<noteq> [] \<Longrightarrow> quiet e In_show_logs \<Longrightarrow>
   show_logs e w =
     (0, w\<lparr> out := out w @ ''Operation Logs:\<newline>'' @ c @
                (if last c = CHR ''\<newline>'' then [] else ''\<newline>'') \<rparr>)"
  by (simp add: show_logs_def put_out_def put_buffer_def quiet_def sys_open_read_def
      sys_fstat_def sys_read_def last_conv_nth Let_def)

lemma show_logs_fs: "fs (snd (show_logs e w)) = fs w"
  by (simp add: show_logs_def put_buffer_def Let_def sys_open_read_def sys_fstat_def sys_read_def
      split: option.splits sum.splits node.splits)

section \<open>Violated preconditions\<close>

text \<open>
  C3. An operation whose existence precondition is violated returns \<open>-1\<close>, and the
  world after it is the world before it with the error message added to the error
  stream: the file system, and so the log, and the output stream are as before. This
  holds in every environment. For a directory that is not empty the message is the
  child's "is not empty" when the fork, the child and \<open>opendir\<close> do not fail from
  outside; otherwise another message or none is added, and nothing else changes.
\<close>

theorem precondition_violation_no_effect:
  "(file_exists e w p \<longrightarrow>
      create_file e p w =
        (- 1, w\<lparr> err := err w @ take 255 (''Error: File \"'' @ p @ ''\" already exists.\<newline>'') \<rparr>)) \<and>
   (\<not> file_exists e w p \<longrightarrow>
      read_file e p w =
        (- 1, w\<lparr> err := err w @ take 255 (''Error: File \"'' @ p @ ''\" not found.\<newline>'') \<rparr>) \<and>
      append_to_file e p c w =
        (- 1, w\<lparr> err := err w @ take 255 (''Error: File \"'' @ p @ ''\" not found.\<newline>'') \<rparr>) \<and>
      append_to_file_forked e p c w =
        (- 1, w\<lparr> err := err w @ take 255 (''Error: File \"'' @ p @ ''\" does not exist\<newline>'') \<rparr>) \<and>
      delete_file e p w =
        (- 1, w\<lparr> err := err w @ take 255 (''Error: File \"'' @ p @ ''\" not found.\<newline>'') \<rparr>)) \<and>
   (\<not> directory_exists e w d \<longrightarrow>
      delete_directory e d w =
        (- 1, w\<lparr> err := err w @ take 255 (''Error: Directory \"'' @ d @ ''\" not found.\<newline>'') \<rparr>)) \<and>
   (directory_exists e w d \<longrightarrow>
      create_directory e d w =
        (- 1, w\<lparr> err := err w @ take 255 (''Error: Directory \"'' @ d @ ''\" already exists.\<newline>'') \<rparr>)) \<and>
   (directory_exists e w d \<longrightarrow> filter (entry_of (resolve e d)) (map fst (fs w)) \<noteq> [] \<longrightarrow>
      (\<exists>m. delete_directory e d w = (- 1, w\<lparr> err := err w @ m \<rparr>)) \<and>
      (\<not> fails e In_delete_directory Fork \<longrightarrow> \<not> fails e In_delete_directory Killed \<longrightarrow>
       \<not> fails e In_delete_directory Opendir \<longrightarrow>
         delete_directory e d w =
           (- 1, w\<lparr> err := err w @ take 255 (''Error: Directory \"'' @ d @ ''\" is not empty.\<newline>'') \<rparr>)))"
  by (intro conjI impI create_file_existing read_file_missing append_to_file_missing
      append_to_file_forked_missing delete_file_missing delete_directory_missing
      create_directory_existing delete_directory_not_empty delete_directory_not_empty_message)

theorem precondition_violation_no_effect_witness:
  "create_file calm ''a.txt'' shelf =
     (- 1, shelf\<lparr> err := ''Error: File \"a.txt\" already exists.\<newline>'' \<rparr>) \<and>
   read_file calm ''b.txt'' shelf =
     (- 1, shelf\<lparr> err := ''Error: File \"b.txt\" not found.\<newline>'' \<rparr>) \<and>
   delete_directory calm ''x'' shelf =
     (- 1, shelf\<lparr> err := ''Error: Directory \"x\" not found.\<newline>'' \<rparr>) \<and>
   create_directory calm ''d'' shelf =
     (- 1, shelf\<lparr> err := ''Error: Directory \"d\" already exists.\<newline>'' \<rparr>) \<and>
   delete_directory calm ''d'' shelf =
     (- 1, shelf\<lparr> err := ''Error: Directory \"d\" is not empty.\<newline>'' \<rparr>)"
proof -
  have f: "file_exists calm shelf ''a.txt''" "\<not> file_exists calm shelf ''b.txt''"
    by (simp_all add: file_exists_def)
  have d: "directory_exists calm shelf ''d''" "\<not> directory_exists calm shelf ''x''"
    by (simp_all add: directory_exists_def)
  have n: "filter (entry_of (resolve calm ''d'')) (map fst (fs shelf)) \<noteq> []"
    by (simp add: entry_of_def)
  have c: "\<not> fails calm In_delete_directory Fork" "\<not> fails calm In_delete_directory Killed"
    "\<not> fails calm In_delete_directory Opendir"
    by (simp_all add: calm_def fails_def)
  note t1 = precondition_violation_no_effect [of calm shelf "''a.txt''" "''X''" "''d''"]
  note t2 = precondition_violation_no_effect [of calm shelf "''b.txt''" "''X''" "''x''"]
  from t1 f(1) d(1) n c t2 f(2) d(2) show ?thesis
    by simp
qed

text \<open>
  C10. \<open>file_exists\<close> holds exactly for a path that names a regular file. On a path
  that names a directory, \<open>read_file\<close>, both \<open>append_to_file\<close> and \<open>delete_file\<close>
  report that the file is not there, return \<open>-1\<close> and change nothing but the error
  stream.
\<close>

theorem directory_is_not_a_file:
  "file_exists e w p = (\<exists>c. map_of (fs w) (resolve e p) = Some (Reg c)) \<and>
   (map_of (fs w) (resolve e p) = Some Dir \<longrightarrow>
      \<not> file_exists e w p \<and>
      read_file e p w =
        (- 1, w\<lparr> err := err w @ take 255 (''Error: File \"'' @ p @ ''\" not found.\<newline>'') \<rparr>) \<and>
      append_to_file e p c w =
        (- 1, w\<lparr> err := err w @ take 255 (''Error: File \"'' @ p @ ''\" not found.\<newline>'') \<rparr>) \<and>
      append_to_file_forked e p c w =
        (- 1, w\<lparr> err := err w @ take 255 (''Error: File \"'' @ p @ ''\" does not exist\<newline>'') \<rparr>) \<and>
      delete_file e p w =
        (- 1, w\<lparr> err := err w @ take 255 (''Error: File \"'' @ p @ ''\" not found.\<newline>'') \<rparr>))"
  by (intro conjI impI file_exists_iff directory_not_file read_file_missing
      append_to_file_missing append_to_file_forked_missing delete_file_missing)

theorem directory_is_not_a_file_witness:
  "map_of (fs shelf) ''d'' = Some Dir \<and>
   \<not> file_exists calm shelf ''d'' \<and>
   read_file calm ''d'' shelf = (- 1, shelf\<lparr> err := ''Error: File \"d\" not found.\<newline>'' \<rparr>) \<and>
   append_to_file calm ''d'' ''X'' shelf =
     (- 1, shelf\<lparr> err := ''Error: File \"d\" not found.\<newline>'' \<rparr>) \<and>
   delete_file calm ''d'' shelf = (- 1, shelf\<lparr> err := ''Error: File \"d\" not found.\<newline>'' \<rparr>)"
proof -
  have d: "map_of (fs shelf) (resolve calm ''d'') = Some Dir" by simp
  from directory_is_not_a_file [of calm shelf "''d''" "''X''"] d show ?thesis
    by simp
qed

section \<open>The dump of the log\<close>

text \<open>
  C7. \<open>show_logs\<close>: with no log file it says so and returns 0; with an empty log
  file it says so and returns 0; otherwise it writes the header and the whole log, and
  one more newline exactly when the log does not end with one, and returns 0. The
  second and third case are for an environment in which no call of \<open>show_logs\<close> fails
  from outside. In every case and every environment the file system is left as it was.
\<close>

theorem show_logs_cases:
  "(map_of (fs w) (resolve e LOG_FILE) = None \<longrightarrow>
      show_logs e w = (0, w\<lparr> out := out w @ ''No logs available.\<newline>'' \<rparr>)) \<and>
   (map_of (fs w) (resolve e LOG_FILE) = Some (Reg []) \<longrightarrow> quiet e In_show_logs \<longrightarrow>
      show_logs e w = (0, w\<lparr> out := out w @ ''Log file is empty.\<newline>'' \<rparr>)) \<and>
   (map_of (fs w) (resolve e LOG_FILE) = Some (Reg c) \<longrightarrow> c \<noteq> [] \<longrightarrow> quiet e In_show_logs \<longrightarrow>
      show_logs e w =
        (0, w\<lparr> out := out w @ ''Operation Logs:\<newline>'' @ c @
                   (if last c = CHR ''\<newline>'' then [] else ''\<newline>'') \<rparr>)) \<and>
   fs (snd (show_logs e w)) = fs w"
  by (intro conjI impI show_logs_no_file show_logs_empty show_logs_content show_logs_fs)

theorem show_logs_cases_witness:
  "show_logs calm (shelf\<lparr> fs := [] \<rparr>) = (0, shelf\<lparr> fs := [], out := ''No logs available.\<newline>'' \<rparr>) \<and>
   show_logs calm shelf = (0, shelf\<lparr> out := ''Log file is empty.\<newline>'' \<rparr>) \<and>
   show_logs calm (shelf\<lparr> fs := [(''log.txt'', Reg ''one\<newline>two'')] \<rparr>) =
     (0, shelf\<lparr> fs := [(''log.txt'', Reg ''one\<newline>two'')],
                out := ''Operation Logs:\<newline>one\<newline>two\<newline>'' \<rparr>) \<and>
   show_logs calm (shelf\<lparr> fs := [(''log.txt'', Reg ''one\<newline>'')] \<rparr>) =
     (0, shelf\<lparr> fs := [(''log.txt'', Reg ''one\<newline>'')],
                out := ''Operation Logs:\<newline>one\<newline>'' \<rparr>)"
proof -
  note a = show_logs_cases [of "shelf\<lparr> fs := [] \<rparr>" calm "[]"]
  note b = show_logs_cases [of shelf calm "[]"]
  note c = show_logs_cases [of "shelf\<lparr> fs := [(''log.txt'', Reg ''one\<newline>two'')] \<rparr>" calm "''one\<newline>two''"]
  note d = show_logs_cases [of "shelf\<lparr> fs := [(''log.txt'', Reg ''one\<newline>'')] \<rparr>" calm "''one\<newline>''"]
  from a b c d show ?thesis
    by (simp add: LOG_FILE_def)
qed

section \<open>Facts about the log and the operations\<close>

lemma map_of_update [simp]: "map_of (AList.update k v al) = (map_of al)(k \<mapsto> v)"
  by (rule update_conv')

lemma map_of_delete [simp]: "map_of (AList.delete k al) = (map_of al)(k := None)"
  by (rule delete_conv')

lemma log_entry_fits:
  "length ts \<le> 63 \<Longrightarrow> length m \<le> 255 \<Longrightarrow> log_entry ts m = ts @ '' '' @ m @ ''\<newline>''"
  by (simp add: log_entry_def string_format_take)

lemma log_operation_ok:
  assumes "map_of (fs w) (resolve e LOG_FILE) = Some (Reg l)" and "quiet e In_log_operation"
  shows "log_operation e m w =
     (0, w\<lparr> fs := AList.update (resolve e LOG_FILE) (Reg (l @ log_entry (take 63 (clock e (ticks w))) m)) (fs w),
            ticks := Suc (ticks w) \<rparr>)"
  using assms
  by (simp add: log_operation_def sys_open_append_def sys_write_def get_timestamp_def quiet_def)

lemma log_step:
  assumes "map_of (fs w) (resolve e LOG_FILE) = Some (Reg l)" and "quiet e In_log_operation"
    and "length m \<le> 255"
  shows "map_of (fs (snd (log_operation e m w))) (resolve e LOG_FILE) =
     Some (Reg (l @ take 63 (clock e (ticks w)) @ '' '' @ m @ ''\<newline>''))"
  using assms by (simp add: log_operation_ok log_entry_fits)

lemma log_operation_frame:
  "k \<noteq> resolve e LOG_FILE \<Longrightarrow> map_of (fs (snd (log_operation e m w))) k = map_of (fs w) k"
  by (simp add: log_operation_def sys_open_append_def sys_write_def get_timestamp_def
      split: option.splits node.splits)

lemma log_operation_out: "out (snd (log_operation e m w)) = out w"
  by (simp add: log_operation_def sys_open_append_def sys_write_def get_timestamp_def
      split: option.splits node.splits)

lemma log_operation_missing:
  "map_of (fs w) (resolve e LOG_FILE) = None \<Longrightarrow> fs (snd (log_operation e m w)) = fs w"
  by (simp add: log_operation_def sys_open_append_def)

lemma length_string_format: "length (string_format sz fmt as) \<le> sz - 1"
  by (simp add: string_format_take)


lemma length_string_format_256 [simp]: "length (string_format 256 fmt as) \<le> 255"
  using length_string_format [of 256 fmt as] by simp

lemma string_format_cong:
  "as = as' \<Longrightarrow> string_format sz fmt as = string_format sz fmt as'"
  by simp

lemma log_step':
  assumes "quiet e In_log_operation" and "length m \<le> 255"
  shows "map_of (fs (snd (log_operation e m w))) (resolve e LOG_FILE) =
     (case map_of (fs w) (resolve e LOG_FILE) of
        Some (Reg l) \<Rightarrow> Some (Reg (l @ take 63 (clock e (ticks w)) @ '' '' @ m @ ''\<newline>''))
      | x \<Rightarrow> x)"
  using assms
  by (simp add: log_operation_def sys_open_append_def sys_write_def get_timestamp_def quiet_def
      log_entry_fits split: option.splits node.splits)

lemma create_file_log:
  assumes "quiet e In_log_operation" and "map_of (fs w) (resolve e LOG_FILE) = Some (Reg l)"
  shows "fst (create_file e p w) = 0 \<longrightarrow>
     map_of (fs (snd (create_file e p w))) (resolve e LOG_FILE) =
       Some (Reg (l @ take 63 (clock e (Suc (ticks w))) @ '' '' @
                  string_format 256 ''File \"%s\" created successfully.'' [S p] @ ''\<newline>''))"
  using assms
  by (simp add: create_file_def file_exists_def sys_create_def sys_write_def get_timestamp_def
      split_beta log_step' length_string_format
      split: option.splits node.splits cong: string_format_cong)
     auto

lemma append_to_file_log:
  assumes "quiet e In_log_operation" and "map_of (fs w) (resolve e LOG_FILE) = Some (Reg l)"
    and "resolve e p \<noteq> resolve e LOG_FILE"
  shows "fst (append_to_file e p c w) = 0 \<longrightarrow>
     map_of (fs (snd (append_to_file e p c w))) (resolve e LOG_FILE) =
       Some (Reg (l @ take 63 (clock e (ticks w)) @ '' '' @
                  string_format 256 ''Content appended to file \"%s\" successfully.'' [S p] @ ''\<newline>''))"
  using assms
  by (simp add: append_to_file_def file_exists_def sys_open_append_def sys_write_def
      split_beta log_step' length_string_format
      split: option.splits node.splits cong: string_format_cong)

lemma list_loop_frame:
  "fs (snd (list_loop e d es n w)) = fs w \<and> ticks (snd (list_loop e d es n w)) = ticks w \<and>
   err (snd (list_loop e d es n w)) = err w"
  by (induction es arbitrary: n w) (simp_all split: option.splits node.splits)

lemma has_extension_iff: "has_extension n x = (length x < length n \<and> suffix x n)"
proof
  assume h: "has_extension n x"
  then have "n = take (length n - length x) n @ x"
    by (metis append_take_drop_id has_extension_def)
  with h show "length x < length n \<and> suffix x n"
    by (metis has_extension_def suffixI)
next
  assume a: "length x < length n \<and> suffix x n"
  then obtain zs where zs: "n = zs @ x"
    unfolding suffix_def by blast
  then show "has_extension n x"
    using a by (simp add: has_extension_def)
qed

text \<open>The names whose line the loop writes.\<close>

lemma ext_loop_eq:
  "ext_loop e d x es n w =
     (n + length (filter (\<lambda>nm. nm \<noteq> ''.'' \<and> nm \<noteq> ''..'' \<and> has_extension nm x \<and>
                    (\<exists>c. map_of (fs w) (resolve e (string_format 512 ''%s/%s'' [S d, S nm])) = Some (Reg c))) es),
      w\<lparr> out := out w @ concat (map (\<lambda>nm. string_format 512 ''  %s\<newline>'' [S nm])
              (filter (\<lambda>nm. nm \<noteq> ''.'' \<and> nm \<noteq> ''..'' \<and> has_extension nm x \<and>
                    (\<exists>c. map_of (fs w) (resolve e (string_format 512 ''%s/%s'' [S d, S nm])) = Some (Reg c))) es)) \<rparr>)"
proof (induction es arbitrary: n w)
  case Nil
  show ?case by simp
next
  case (Cons nm es)
  show ?case
  proof (cases "nm \<noteq> ''.'' \<and> nm \<noteq> ''..'' \<and> has_extension nm x \<and>
                    (\<exists>c. map_of (fs w) (resolve e (string_format 512 ''%s/%s'' [S d, S nm])) = Some (Reg c))")
    case True
    then obtain c where c: "map_of (fs w) (resolve e (string_format 512 ''%s/%s'' [S d, S nm])) = Some (Reg c)"
      by blast
    from True c show ?thesis
      by (simp add: Cons.IH put_out_def cong: string_format_cong)
  next
    case False
    then show ?thesis
      by (auto simp: Cons.IH split: option.splits node.splits cong: string_format_cong)
  qed
qed

lemma ext_loop_frame:
  "fs (snd (ext_loop e d x es n w)) = fs w \<and> ticks (snd (ext_loop e d x es n w)) = ticks w"
  by (simp add: ext_loop_eq)

lemma create_directory_log:
  assumes "quiet e In_log_operation" and "map_of (fs w) (resolve e LOG_FILE) = Some (Reg l)"
  shows "fst (create_directory e d w) = 0 \<longrightarrow>
     map_of (fs (snd (create_directory e d w))) (resolve e LOG_FILE) =
       Some (Reg (l @ take 63 (clock e (ticks w)) @ '' '' @
                  string_format 256 ''Directory \"%s\" created successfully.'' [S d] @ ''\<newline>''))"
  using assms
  by (simp add: create_directory_def directory_exists_def sys_mkdir_def
      split_beta log_step' split: option.splits node.splits cong: string_format_cong)
     auto

lemma read_file_log:
  assumes "quiet e In_log_operation" and "map_of (fs w) (resolve e LOG_FILE) = Some (Reg l)"
  shows "fst (read_file e p w) = 0 \<longrightarrow>
     map_of (fs (snd (read_file e p w))) (resolve e LOG_FILE) =
       Some (Reg (l @ take 63 (clock e (ticks w)) @ '' '' @
                  string_format 256 ''File \"%s\" read successfully.'' [S p] @ ''\<newline>''))"
  using assms
  by (simp add: read_file_def file_exists_def sys_open_read_def sys_fstat_def sys_read_def
      put_buffer_def Let_def split_beta log_step'
      split: option.splits node.splits cong: string_format_cong)

lemma delete_file_log:
  assumes "quiet e In_log_operation" and "map_of (fs w) (resolve e LOG_FILE) = Some (Reg l)"
    and "resolve e p \<noteq> resolve e LOG_FILE"
  shows "fst (delete_file e p w) = 0 \<longrightarrow>
     map_of (fs (snd (delete_file e p w))) (resolve e LOG_FILE) =
       Some (Reg (l @ take 63 (clock e (ticks w)) @ '' '' @
                  string_format 256 ''File \"%s\" deleted successfully.'' [S p] @ ''\<newline>''))"
  using assms
  by (simp add: delete_file_def delete_file_child_def run_child_def file_exists_def sys_unlink_def
      split_beta log_step' split: option.splits node.splits cong: string_format_cong)

lemma delete_directory_log:
  assumes "quiet e In_log_operation" and "map_of (fs w) (resolve e LOG_FILE) = Some (Reg l)"
  shows "fst (delete_directory e d w) = 0 \<longrightarrow>
     map_of (fs (snd (delete_directory e d w))) (resolve e LOG_FILE) =
       Some (Reg (l @ take 63 (clock e (ticks w)) @ '' '' @
                  string_format 256 ''Directory \"%s\" deleted successfully.'' [S d] @ ''\<newline>''))"
  using assms
  by (simp add: delete_directory_def delete_directory_child_def run_child_def
      directory_exists_def sys_opendir_def sys_rmdir_def
      split_beta log_step' split: option.splits node.splits cong: string_format_cong)
     auto

lemma list_directory_log:
  assumes "quiet e In_log_operation" and "map_of (fs w) (resolve e LOG_FILE) = Some (Reg l)"
  shows "fst (list_directory e d w) = 0 \<longrightarrow>
     map_of (fs (snd (list_directory e d w))) (resolve e LOG_FILE) =
       Some (Reg (l @ take 63 (clock e (ticks w)) @ '' '' @
                  string_format 256 ''Listed contents of directory \"%s\".'' [S d] @ ''\<newline>''))"
  using assms
  by (simp add: list_directory_def list_directory_child_def run_child_def
      directory_exists_def sys_opendir_def list_loop_frame
      split_beta log_step' split: option.splits node.splits cong: string_format_cong)

lemma list_files_by_extension_log:
  assumes "quiet e In_log_operation" and "map_of (fs w) (resolve e LOG_FILE) = Some (Reg l)"
  shows "fst (list_files_by_extension e d x w) = 0 \<longrightarrow>
     map_of (fs (snd (list_files_by_extension e d x w))) (resolve e LOG_FILE) =
       Some (Reg (l @ take 63 (clock e (ticks w)) @ '' '' @
                  string_format 256 ''Listed files with extension \"%s\" in directory \"%s\".''
                    [S x, S d] @ ''\<newline>''))"
  using assms
  by (simp add: list_files_by_extension_def list_files_by_extension_child_def run_child_def
      directory_exists_def sys_opendir_def ext_loop_frame
      split_beta log_step' split: option.splits node.splits cong: string_format_cong)

lemma nth_last: "xs \<noteq> [] \<Longrightarrow> xs ! (length xs - Suc 0) = last xs"
  by (simp add: last_conv_nth)

lemma create_file_content:
  assumes "resolve e p \<noteq> resolve e LOG_FILE"
  shows "fst (create_file e p w) = 0 \<longrightarrow>
     map_of (fs w) (resolve e p) = None \<and>
     map_of (fs (snd (create_file e p w))) (resolve e p) = Some (Reg (take 63 (clock e (ticks w))))"
  using assms
  by (simp add: create_file_def file_exists_def sys_create_def sys_write_def get_timestamp_def
      split_beta log_operation_frame split: option.splits node.splits cong: string_format_cong)

lemma read_file_out:
  assumes "map_of (fs w) (resolve e p) = Some (Reg c)"
  shows "fst (read_file e p w) = 0 \<longrightarrow>
     out (snd (read_file e p w)) =
       out w @ string_format 256 ''Contents of \"%s\":\<newline>'' [S p] @ c @
       (if c = [] \<or> last c = CHR ''\<newline>'' then [] else ''\<newline>'')"
  using assms
  by (simp add: read_file_def file_exists_def sys_open_read_def sys_fstat_def sys_read_def
      put_buffer_def Let_def split_beta log_operation_out
      split: option.splits node.splits cong: string_format_cong)
     (auto simp: last_conv_nth)

lemma read_file_quiet:
  "map_of (fs w) (resolve e p) = Some (Reg c) \<Longrightarrow> quiet e In_read_file \<Longrightarrow> fst (read_file e p w) = 0"
  by (simp add: read_file_def file_exists_def sys_open_read_def sys_fstat_def sys_read_def
      quiet_def split_beta cong: string_format_cong)

lemma append_to_file_content:
  assumes "resolve e p \<noteq> resolve e LOG_FILE" and "map_of (fs w) (resolve e p) = Some (Reg old)"
  shows "fst (append_to_file e p c w) = 0 \<longrightarrow>
     map_of (fs (snd (append_to_file e p c w))) (resolve e p) = Some (Reg (old @ ''\<newline>'' @ c))"
  using assms
  by (simp add: append_to_file_def file_exists_def sys_open_append_def sys_write_def
      split_beta log_operation_frame split: option.splits node.splits cong: string_format_cong)

lemma append_to_file_forked_content:
  assumes "resolve e p \<noteq> resolve e LOG_FILE" and "map_of (fs w) (resolve e p) = Some (Reg old)"
    and "quiet e In_append_to_file"
  shows "fst (append_to_file_forked e p c w) = 0 \<and>
     map_of (fs (snd (append_to_file_forked e p c w))) (resolve e p) =
       Some (Reg (old @ (if old = [] \<or> last old = CHR ''\<newline>'' then [] else ''\<newline>'') @ c))"
  using assms
  by (simp add: append_to_file_forked_def append_to_file_child_def run_child_def file_exists_def
      sys_open_append_def sys_write_def quiet_def fails_def Let_def
      split_beta log_operation_frame cong: string_format_cong)
     (metis last_conv_nth One_nat_def)


lemma path_fits:
  "length d + length n < 511 \<Longrightarrow> string_format 512 ''%s/%s'' [S d, S n] = d @ ''/'' @ n"
  by (simp add: string_format_take)

lemma list_files_by_extension_child_eq:
  assumes "directory_exists e w d" and "\<not> fails e In_list_files_by_extension Opendir"
  shows "list_files_by_extension_child e d x w =
     (0, w\<lparr> out := out w @
           string_format 256 ''Files with extension \"%s\" in directory \"%s\":\<newline>'' [S x, S d] @
           concat (map (\<lambda>nm. string_format 512 ''  %s\<newline>'' [S nm])
             (filter (\<lambda>nm. nm \<noteq> ''.'' \<and> nm \<noteq> ''..'' \<and> has_extension nm x \<and>
                (\<exists>c. map_of (fs w) (resolve e (string_format 512 ''%s/%s'' [S d, S nm])) = Some (Reg c)))
                (readdir w (resolve e d)))) @
           (if filter (\<lambda>nm. nm \<noteq> ''.'' \<and> nm \<noteq> ''..'' \<and> has_extension nm x \<and>
                (\<exists>c. map_of (fs w) (resolve e (string_format 512 ''%s/%s'' [S d, S nm])) = Some (Reg c)))
                (readdir w (resolve e d)) = []
            then string_format 256 ''No files with extension \"%s\" found in \"%s\".\<newline>'' [S x, S d]
            else []) \<rparr>)"
  using assms
  by (simp add: list_files_by_extension_child_def sys_opendir_def directory_exists_iff
      fails_def ext_loop_eq put_out_def cong: string_format_cong)

lemma list_files_by_extension_out:
  assumes "directory_exists e w d" and "quiet e In_list_files_by_extension"
  shows "fst (list_files_by_extension e d x w) = 0 \<and>
     out (snd (list_files_by_extension e d x w)) =
       out w @
       string_format 256 ''Files with extension \"%s\" in directory \"%s\":\<newline>'' [S x, S d] @
       concat (map (\<lambda>nm. string_format 512 ''  %s\<newline>'' [S nm])
         (filter (\<lambda>nm. nm \<noteq> ''.'' \<and> nm \<noteq> ''..'' \<and> has_extension nm x \<and>
            (\<exists>c. map_of (fs w) (resolve e (string_format 512 ''%s/%s'' [S d, S nm])) = Some (Reg c)))
            (readdir w (resolve e d)))) @
       (if filter (\<lambda>nm. nm \<noteq> ''.'' \<and> nm \<noteq> ''..'' \<and> has_extension nm x \<and>
            (\<exists>c. map_of (fs w) (resolve e (string_format 512 ''%s/%s'' [S d, S nm])) = Some (Reg c)))
            (readdir w (resolve e d)) = []
        then string_format 256 ''No files with extension \"%s\" found in \"%s\".\<newline>'' [S x, S d]
        else [])"
proof -
  from assms(2) have o: "\<not> fails e In_list_files_by_extension Opendir"
    and f: "fault e In_list_files_by_extension Fork = None"
    and k: "\<not> fails e In_list_files_by_extension Killed"
    by (simp_all add: quiet_def fails_def)
  show ?thesis
    using assms(1) f k
    by (simp add: list_files_by_extension_def run_child_def
        list_files_by_extension_child_eq [OF assms(1) o] split_beta log_operation_out
        cong: string_format_cong)
qed

lemma world_simps [simp]:
  "fs bare = []" "out bare = []" "err bare = []" "ticks bare = 0"
  "fs desk = [(''log.txt'', Reg []), (''a.txt'', Reg ''abc\<newline>''), (''e.txt'', Reg [])]"
  "out desk = []" "err desk = []" "ticks desk = 0"
  "fs attic = [(''log.txt'', Reg []), (''d'', Dir), (''d/.txt'', Reg ''x''),
               (''d/a.txt'', Reg ''y''), (''d/b.TXT'', Reg ''z''), (''d/c.txt'', Dir)]"
  "out attic = []" "err attic = []" "ticks attic = 0"
  by (simp_all add: bare_def desk_def attic_def)

lemma calm_simps [simp]:
  "fault calm f s = None" "clock calm k = ''[2024-01-01 00:00:00]''" "\<not> fails calm f s"
  by (simp_all add: calm_def fails_def)

lemmas run_defs =
  create_file_def read_file_def append_to_file_def append_to_file_forked_def
  append_to_file_child_def delete_file_def delete_file_child_def run_child_def
  log_operation_def log_entry_def get_timestamp_def put_buffer_def put_out_def put_err_def
  file_exists_def directory_exists_def sys_create_def sys_open_append_def sys_open_read_def
  sys_write_def sys_fstat_def sys_read_def sys_unlink_def parent_error_def parent_def
  LOG_FILE_def string_format_take Let_def

lemma tmpl_simps:
  "string_format 256 ''Directory \"%s\" created successfully.'' [S d] =
     take 255 (''Directory \"'' @ d @ ''\" created successfully.'')"
  "string_format 256 ''File \"%s\" created successfully.'' [S p] =
     take 255 (''File \"'' @ p @ ''\" created successfully.'')"
  "string_format 256 ''Listed contents of directory \"%s\".'' [S d] =
     take 255 (''Listed contents of directory \"'' @ d @ ''\".'')"
  "string_format 256 ''Listed files with extension \"%s\" in directory \"%s\".'' [S x, S d] =
     take 255 (''Listed files with extension \"'' @ x @ ''\" in directory \"'' @ d @ ''\".'')"
  "string_format 256 ''File \"%s\" read successfully.'' [S p] =
     take 255 (''File \"'' @ p @ ''\" read successfully.'')"
  "string_format 256 ''Content appended to file \"%s\" successfully.'' [S p] =
     take 255 (''Content appended to file \"'' @ p @ ''\" successfully.'')"
  "string_format 256 ''File \"%s\" deleted successfully.'' [S p] =
     take 255 (''File \"'' @ p @ ''\" deleted successfully.'')"
  "string_format 256 ''Directory \"%s\" deleted successfully.'' [S d] =
     take 255 (''Directory \"'' @ d @ ''\" deleted successfully.'')"
  by (simp_all add: string_format_take)

lemma success_eq: "f = (0, w') \<Longrightarrow> fst f = 0 \<and> snd f = w'"
  by simp

lemma suffix_eval [simp]:
  "suffix xs [] = (xs = [])"
  "suffix xs (y # ys) = (xs = y # ys \<or> suffix xs ys)"
  by (simp_all add: suffix_Cons)

lemmas dir_defs =
  list_files_by_extension_def list_files_by_extension_child_def sys_opendir_def readdir_def
  entry_of_def has_extension_def

section \<open>Paths and numbers\<close>

text \<open>
  Two spellings of one file are one file: \<open>./a.txt\<close> is there when \<open>a.txt\<close> is, and
  creating \<open>./log.txt\<close> when there is a log fails. A file is not created in a directory
  that is missing or in a file.
\<close>

lemma same_file_two_spellings:
  "file_exists calm shelf ''./log.txt'' \<and>
   directory_exists calm shelf ''./d/'' \<and>
   create_file calm ''./log.txt'' shelf =
     (- 1, shelf\<lparr> err := ''Error: File \"./log.txt\" already exists.\<newline>'' \<rparr>)"
  by (simp add: run_defs)

lemma create_file_no_directory:
  "create_file calm ''nodir/f.txt'' shelf =
     (- 1, shelf\<lparr> err := ''Error: Could not create file \"nodir/f.txt\": '' @
                            ''No such file or directory\<newline>'' \<rparr>) \<and>
   create_file calm ''a.txt/f.txt'' shelf =
     (- 1, shelf\<lparr> err := ''Error: Could not create file \"a.txt/f.txt\": '' @
                            ''Not a directory\<newline>'' \<rparr>) \<and>
   fst (create_file calm ''d/f.txt'' shelf) = 0"
  by (simp add: run_defs canonical_def)

text \<open>\<open>%d\<close> on a 32 bit \<open>int\<close>: at \<open>INT_MIN\<close> the negation wraps and no digit is written.\<close>

lemma sf_digits_numeral:
  "sf_digits (numeral n) v =
     (if v > 0 then char_of (48 + v mod 10) # sf_digits (pred_numeral n) (v div 10) else [])"
  by (simp add: numeral_eq_Suc)

lemma char_of_digits: "char_of (52::int) = CHR ''4''" "char_of (50::int) = CHR ''2''"
  by (simp_all add: char_of_def)

lemma string_format_int:
  "string_format 256 ''%d files'' [D 42] = ''42 files'' \<and>
   string_format 256 ''%d'' [D 0] = ''0'' \<and>
   string_format 256 ''%d'' [D (- 42)] = ''-42'' \<and>
   string_format 256 ''%d'' [D (- 2147483648)] = ''-''"
  by (simp add: string_format_take show_int_def sf_digits_numeral char_of_digits)

section \<open>Appending to a file\<close>

text \<open>
  C1. The claim: an append puts one newline before the content exactly when the file is
  not empty and does not end with one. \<open>append_to_file\<close> of fileops.c writes the
  newline in every case (lemma \<open>append_to_file_content\<close>): on a file that holds
  \<open>abc\<close> and a newline the content comes after two newlines, and on an empty file
  after one. The other \<open>append_to_file\<close> of the repository does what the claim says
  (lemma \<open>append_to_file_forked_content\<close>) and gives one newline and none. Three
  appends of \<open>X\<close> by fileops.c leave two newlines before the first \<open>X\<close>.
\<close>

theorem append_to_file_newline_always:
  "fst (append_to_file calm ''a.txt'' ''X'' desk) = 0 \<and>
   map_of (fs (snd (append_to_file calm ''a.txt'' ''X'' desk))) ''a.txt'' =
     Some (Reg ''abc\<newline>\<newline>X'') \<and>
   fst (append_to_file calm ''e.txt'' ''X'' desk) = 0 \<and>
   map_of (fs (snd (append_to_file calm ''e.txt'' ''X'' desk))) ''e.txt'' = Some (Reg ''\<newline>X'') \<and>
   map_of (fs (snd (append_to_file_forked calm ''a.txt'' ''X'' desk))) ''a.txt'' =
     Some (Reg ''abc\<newline>X'') \<and>
   map_of (fs (snd (append_to_file_forked calm ''e.txt'' ''X'' desk))) ''e.txt'' = Some (Reg ''X'') \<and>
   map_of (fs (snd (append_to_file calm ''a.txt'' ''X''
                 (snd (append_to_file calm ''a.txt'' ''X''
                    (snd (append_to_file calm ''a.txt'' ''X'' desk))))))) ''a.txt'' =
     Some (Reg ''abc\<newline>\<newline>X\<newline>X\<newline>X'')"
  by (simp add: run_defs)

section \<open>Creating and reading back\<close>

text \<open>
  C6, as amended. For a path \<open>p\<close> that does not name the log file, under whatever
  spelling: if \<open>create_file\<close> returns 0 then nothing was there before, the file that
  \<open>p\<close> names now holds the timestamp written at creation and nothing else,
  \<open>read_file\<close> on it returns 0 when none of its calls fails from outside, and a
  \<open>read_file\<close> that returns 0 has written the header, the timestamp, and a newline if
  the timestamp does not end with one.
\<close>

theorem create_then_read:
  assumes "create_file e p w = (0, w1)" and "resolve e p \<noteq> resolve e LOG_FILE"
  shows "map_of (fs w) (resolve e p) = None \<and>
     map_of (fs w1) (resolve e p) = Some (Reg (take 63 (clock e (ticks w)))) \<and>
     (quiet e In_read_file \<longrightarrow> fst (read_file e p w1) = 0) \<and>
     (\<forall>w2. read_file e p w1 = (0, w2) \<longrightarrow>
        out w2 =
          out w1 @ take 255 (''Contents of \"'' @ p @ ''\":\<newline>'') @ take 63 (clock e (ticks w)) @
          (if take 63 (clock e (ticks w)) = [] \<or> last (take 63 (clock e (ticks w))) = CHR ''\<newline>''
           then [] else ''\<newline>''))"
proof -
  from assms(1) have s: "fst (create_file e p w) = 0" "snd (create_file e p w) = w1"
    by simp_all
  from create_file_content [OF assms(2), of w] s
  have none: "map_of (fs w) (resolve e p) = None"
    and c: "map_of (fs w1) (resolve e p) = Some (Reg (take 63 (clock e (ticks w))))"
    by simp_all
  have q: "quiet e In_read_file \<longrightarrow> fst (read_file e p w1) = 0"
    using read_file_quiet [OF c] by blast
  have r: "\<forall>w2. read_file e p w1 = (0, w2) \<longrightarrow>
        out w2 =
          out w1 @ take 255 (''Contents of \"'' @ p @ ''\":\<newline>'') @ take 63 (clock e (ticks w)) @
          (if take 63 (clock e (ticks w)) = [] \<or> last (take 63 (clock e (ticks w))) = CHR ''\<newline>''
           then [] else ''\<newline>'')"
  proof (intro allI impI)
    fix w2
    assume "read_file e p w1 = (0, w2)"
    then have "fst (read_file e p w1) = 0" "snd (read_file e p w1) = w2" by simp_all
    with read_file_out [OF c]
    have "out w2 =
       out w1 @ string_format 256 ''Contents of \"%s\":\<newline>'' [S p] @ take 63 (clock e (ticks w)) @
       (if take 63 (clock e (ticks w)) = [] \<or> last (take 63 (clock e (ticks w))) = CHR ''\<newline>''
        then [] else ''\<newline>'')"
      by simp
    moreover have "string_format 256 ''Contents of \"%s\":\<newline>'' [S p] =
        take 255 (''Contents of \"'' @ p @ ''\":\<newline>'')"
      by (simp add: string_format_take)
    ultimately show "out w2 =
          out w1 @ take 255 (''Contents of \"'' @ p @ ''\":\<newline>'') @ take 63 (clock e (ticks w)) @
          (if take 63 (clock e (ticks w)) = [] \<or> last (take 63 (clock e (ticks w))) = CHR ''\<newline>''
           then [] else ''\<newline>'')"
      by (simp only:)
  qed
  from none c q r show ?thesis by blast
qed

theorem create_then_read_witness:
  "create_file calm ''b.txt'' shelf =
     (0, \<lparr> fs = [(''log.txt'', Reg ''[2024-01-01 00:00:00] File \"b.txt\" created successfully.\<newline>''),
                 (''a.txt'', Reg ''abc''), (''d'', Dir), (''d/a.txt'', Reg ''y''),
                 (''b.txt'', Reg ''[2024-01-01 00:00:00]'')],
            out = ''File \"b.txt\" created successfully.\<newline>'', err = [], ticks = 2 \<rparr>) \<and>
   resolve calm ''b.txt'' \<noteq> resolve calm LOG_FILE \<and>
   map_of (fs shelf) ''b.txt'' = None \<and>
   fst (read_file calm ''b.txt'' (snd (create_file calm ''b.txt'' shelf))) = 0 \<and>
   out (snd (read_file calm ''b.txt'' (snd (create_file calm ''b.txt'' shelf)))) =
     ''File \"b.txt\" created successfully.\<newline>'' @
     ''Contents of \"b.txt\":\<newline>'' @ ''[2024-01-01 00:00:00]'' @ ''\<newline>''"
proof -
  let ?w1 = "\<lparr> fs = [(''log.txt'', Reg ''[2024-01-01 00:00:00] File \"b.txt\" created successfully.\<newline>''),
                 (''a.txt'', Reg ''abc''), (''d'', Dir), (''d/a.txt'', Reg ''y''),
                 (''b.txt'', Reg ''[2024-01-01 00:00:00]'')],
            out = ''File \"b.txt\" created successfully.\<newline>'', err = [], ticks = 2 \<rparr>"
  have c: "create_file calm ''b.txt'' shelf = (0, ?w1)"
    by (simp add: run_defs shelf_def)
  have ne: "resolve calm ''b.txt'' \<noteq> resolve calm LOG_FILE" by (simp add: LOG_FILE_def)
  note t = create_then_read [OF c ne]
  from t have none: "map_of (fs shelf) ''b.txt'' = None" by simp
  from t have ok: "fst (read_file calm ''b.txt'' ?w1) = 0" by simp
  then have "read_file calm ''b.txt'' ?w1 = (0, snd (read_file calm ''b.txt'' ?w1))"
    by (metis prod.collapse)
  with t have "out (snd (read_file calm ''b.txt'' ?w1)) =
      out ?w1 @ take 255 (''Contents of \"'' @ ''b.txt'' @ ''\":\<newline>'') @
      take 63 (clock calm (ticks shelf)) @
      (if take 63 (clock calm (ticks shelf)) = [] \<or>
          last (take 63 (clock calm (ticks shelf))) = CHR ''\<newline>''
       then [] else ''\<newline>'')"
    by blast
  then have o: "out (snd (read_file calm ''b.txt'' ?w1)) =
     ''File \"b.txt\" created successfully.\<newline>'' @
     ''Contents of \"b.txt\":\<newline>'' @ ''[2024-01-01 00:00:00]'' @ ''\<newline>''"
    by simp
  from c ne none ok o show ?thesis by simp
qed

text \<open>
  C6 as stated fails for a path that names the log file when there is no log yet:
  \<open>create_file\<close> creates it, writes the timestamp, and then \<open>log_operation\<close> appends
  its line to the same file, so \<open>read_file\<close> shows the timestamp followed by that line.
  This is so for \<open>log.txt\<close> and for every other spelling of it, such as \<open>./log.txt\<close>.
\<close>

theorem create_then_read_log_file:
  "map_of (fs bare) (resolve calm LOG_FILE) = None \<and>
   fst (create_file calm LOG_FILE bare) = 0 \<and>
   map_of (fs (snd (create_file calm LOG_FILE bare))) (resolve calm LOG_FILE) =
     Some (Reg (''[2024-01-01 00:00:00]'' @
                ''[2024-01-01 00:00:00] File \"log.txt\" created successfully.\<newline>'')) \<and>
   fst (read_file calm LOG_FILE (snd (create_file calm LOG_FILE bare))) = 0 \<and>
   out (snd (read_file calm LOG_FILE (snd (create_file calm LOG_FILE bare)))) =
     ''File \"log.txt\" created successfully.\<newline>'' @
     ''Contents of \"log.txt\":\<newline>'' @
     ''[2024-01-01 00:00:00]'' @
     ''[2024-01-01 00:00:00] File \"log.txt\" created successfully.\<newline>'' \<and>
   ''./log.txt'' \<noteq> LOG_FILE \<and>
   resolve calm ''./log.txt'' = resolve calm LOG_FILE \<and>
   fst (create_file calm ''./log.txt'' bare) = 0 \<and>
   fs (snd (create_file calm ''./log.txt'' bare)) =
     [(''log.txt'', Reg (''[2024-01-01 00:00:00]'' @
                ''[2024-01-01 00:00:00] File \"./log.txt\" created successfully.\<newline>''))] \<and>
   fst (read_file calm ''./log.txt'' (snd (create_file calm ''./log.txt'' bare))) = 0 \<and>
   out (snd (read_file calm ''./log.txt'' (snd (create_file calm ''./log.txt'' bare)))) =
     ''File \"./log.txt\" created successfully.\<newline>'' @
     ''Contents of \"./log.txt\":\<newline>'' @
     ''[2024-01-01 00:00:00]'' @
     ''[2024-01-01 00:00:00] File \"./log.txt\" created successfully.\<newline>''"
  by (simp add: run_defs)

section \<open>One log line for a successful command\<close>

text \<open>
  C2, as amended. With a log file that is a regular file and a \<open>log_operation\<close> whose
  calls do not fail from outside: each of the eight file and directory commands, run
  with its arity and returning 0, leaves the log as it was with exactly one line added,
  the timestamp, a space, the message of the command with the names filled in and cut
  to 255 characters, and a newline (for \<open>appendToFile\<close> and \<open>deleteFile\<close> the path
  does not name the log file, under whatever spelling). \<open>showLogs\<close> leaves the file
  system, and so the log, as it was, and returns 0 when none of its calls fails from
  outside; \<open>help\<close> returns 0 and only writes its text to the output; \<open>exit\<close> and
  \<open>quit\<close> return 1 and change nothing.
\<close>

theorem successful_command_logs_once:
  assumes "quiet e In_log_operation" and "map_of (fs w) (resolve e LOG_FILE) = Some (Reg l)"
  shows
   "(execute_command e [''createDir'', d] w = (0, w') \<longrightarrow>
       map_of (fs w') (resolve e LOG_FILE) =
         Some (Reg (l @ take 63 (clock e (ticks w)) @ '' '' @
           take 255 (''Directory \"'' @ d @ ''\" created successfully.'') @ ''\<newline>''))) \<and>
    (execute_command e [''createFile'', p] w = (0, w') \<longrightarrow>
       map_of (fs w') (resolve e LOG_FILE) =
         Some (Reg (l @ take 63 (clock e (Suc (ticks w))) @ '' '' @
           take 255 (''File \"'' @ p @ ''\" created successfully.'') @ ''\<newline>''))) \<and>
    (execute_command e [''listDir'', d] w = (0, w') \<longrightarrow>
       map_of (fs w') (resolve e LOG_FILE) =
         Some (Reg (l @ take 63 (clock e (ticks w)) @ '' '' @
           take 255 (''Listed contents of directory \"'' @ d @ ''\".'') @ ''\<newline>''))) \<and>
    (execute_command e [''listFilesByExtension'', d, x] w = (0, w') \<longrightarrow>
       map_of (fs w') (resolve e LOG_FILE) =
         Some (Reg (l @ take 63 (clock e (ticks w)) @ '' '' @
           take 255 (''Listed files with extension \"'' @ x @ ''\" in directory \"'' @ d @ ''\".'') @
           ''\<newline>''))) \<and>
    (execute_command e [''readFile'', p] w = (0, w') \<longrightarrow>
       map_of (fs w') (resolve e LOG_FILE) =
         Some (Reg (l @ take 63 (clock e (ticks w)) @ '' '' @
           take 255 (''File \"'' @ p @ ''\" read successfully.'') @ ''\<newline>''))) \<and>
    (execute_command e [''appendToFile'', p, c] w = (0, w') \<longrightarrow> resolve e p \<noteq> resolve e LOG_FILE \<longrightarrow>
       map_of (fs w') (resolve e LOG_FILE) =
         Some (Reg (l @ take 63 (clock e (ticks w)) @ '' '' @
           take 255 (''Content appended to file \"'' @ p @ ''\" successfully.'') @ ''\<newline>''))) \<and>
    (execute_command e [''deleteFile'', p] w = (0, w') \<longrightarrow> resolve e p \<noteq> resolve e LOG_FILE \<longrightarrow>
       map_of (fs w') (resolve e LOG_FILE) =
         Some (Reg (l @ take 63 (clock e (ticks w)) @ '' '' @
           take 255 (''File \"'' @ p @ ''\" deleted successfully.'') @ ''\<newline>''))) \<and>
    (execute_command e [''deleteDir'', d] w = (0, w') \<longrightarrow>
       map_of (fs w') (resolve e LOG_FILE) =
         Some (Reg (l @ take 63 (clock e (ticks w)) @ '' '' @
           take 255 (''Directory \"'' @ d @ ''\" deleted successfully.'') @ ''\<newline>''))) \<and>
    fs (snd (execute_command e (''showLogs'' # as) w)) = fs w \<and>
    (quiet e In_show_logs \<longrightarrow> fst (execute_command e (''showLogs'' # as) w) = 0) \<and>
    execute_command e (''help'' # as) w = (0, w\<lparr> out := out w @ help_text \<rparr>) \<and>
    execute_command e (''exit'' # as) w = (1, w) \<and>
    execute_command e (''quit'' # as) w = (1, w)"
proof (intro conjI impI)
  assume "execute_command e [''createDir'', d] w = (0, w')"
  then have "create_directory e d w = (0, w')" by (simp add: execute_command_def)
  from success_eq [OF this] create_directory_log [OF assms, of d]
  show "map_of (fs w') (resolve e LOG_FILE) =
         Some (Reg (l @ take 63 (clock e (ticks w)) @ '' '' @
           take 255 (''Directory \"'' @ d @ ''\" created successfully.'') @ ''\<newline>''))"
    by (simp only: tmpl_simps)
next
  assume "execute_command e [''createFile'', p] w = (0, w')"
  then have "create_file e p w = (0, w')" by (simp add: execute_command_def)
  from success_eq [OF this] create_file_log [OF assms, of p]
  show "map_of (fs w') (resolve e LOG_FILE) =
         Some (Reg (l @ take 63 (clock e (Suc (ticks w))) @ '' '' @
           take 255 (''File \"'' @ p @ ''\" created successfully.'') @ ''\<newline>''))"
    by (simp only: tmpl_simps)
next
  assume "execute_command e [''listDir'', d] w = (0, w')"
  then have "list_directory e d w = (0, w')" by (simp add: execute_command_def)
  from success_eq [OF this] list_directory_log [OF assms, of d]
  show "map_of (fs w') (resolve e LOG_FILE) =
         Some (Reg (l @ take 63 (clock e (ticks w)) @ '' '' @
           take 255 (''Listed contents of directory \"'' @ d @ ''\".'') @ ''\<newline>''))"
    by (simp only: tmpl_simps)
next
  assume "execute_command e [''listFilesByExtension'', d, x] w = (0, w')"
  then have "list_files_by_extension e d x w = (0, w')" by (simp add: execute_command_def)
  from success_eq [OF this] list_files_by_extension_log [OF assms, of d x]
  show "map_of (fs w') (resolve e LOG_FILE) =
         Some (Reg (l @ take 63 (clock e (ticks w)) @ '' '' @
           take 255 (''Listed files with extension \"'' @ x @ ''\" in directory \"'' @ d @ ''\".'') @
           ''\<newline>''))"
    by (simp only: tmpl_simps)
next
  assume "execute_command e [''readFile'', p] w = (0, w')"
  then have "read_file e p w = (0, w')" by (simp add: execute_command_def)
  from success_eq [OF this] read_file_log [OF assms, of p]
  show "map_of (fs w') (resolve e LOG_FILE) =
         Some (Reg (l @ take 63 (clock e (ticks w)) @ '' '' @
           take 255 (''File \"'' @ p @ ''\" read successfully.'') @ ''\<newline>''))"
    by (simp only: tmpl_simps)
next
  assume "execute_command e [''appendToFile'', p, c] w = (0, w')" and ne: "resolve e p \<noteq> resolve e LOG_FILE"
  then have "append_to_file e p c w = (0, w')" by (simp add: execute_command_def)
  from success_eq [OF this] append_to_file_log [OF assms ne, of c]
  show "map_of (fs w') (resolve e LOG_FILE) =
         Some (Reg (l @ take 63 (clock e (ticks w)) @ '' '' @
           take 255 (''Content appended to file \"'' @ p @ ''\" successfully.'') @ ''\<newline>''))"
    by (simp only: tmpl_simps)
next
  assume "execute_command e [''deleteFile'', p] w = (0, w')" and ne: "resolve e p \<noteq> resolve e LOG_FILE"
  then have "delete_file e p w = (0, w')" by (simp add: execute_command_def)
  from success_eq [OF this] delete_file_log [OF assms ne]
  show "map_of (fs w') (resolve e LOG_FILE) =
         Some (Reg (l @ take 63 (clock e (ticks w)) @ '' '' @
           take 255 (''File \"'' @ p @ ''\" deleted successfully.'') @ ''\<newline>''))"
    by (simp only: tmpl_simps)
next
  assume "execute_command e [''deleteDir'', d] w = (0, w')"
  then have "delete_directory e d w = (0, w')" by (simp add: execute_command_def)
  from success_eq [OF this] delete_directory_log [OF assms, of d]
  show "map_of (fs w') (resolve e LOG_FILE) =
         Some (Reg (l @ take 63 (clock e (ticks w)) @ '' '' @
           take 255 (''Directory \"'' @ d @ ''\" deleted successfully.'') @ ''\<newline>''))"
    by (simp only: tmpl_simps)
next
  have "execute_command e (''showLogs'' # as) w = show_logs e w"
    by (simp add: execute_command_def)
  with show_logs_fs [of e w] show "fs (snd (execute_command e (''showLogs'' # as) w)) = fs w"
    by simp
next
  assume q: "quiet e In_show_logs"
  have x: "execute_command e (''showLogs'' # as) w = show_logs e w"
    by (simp add: execute_command_def)
  show "fst (execute_command e (''showLogs'' # as) w) = 0"
  proof (cases "l = []")
    case True
    with assms(2) q show ?thesis by (simp add: x show_logs_empty)
  next
    case False
    with assms(2) q show ?thesis by (simp add: x show_logs_content)
  qed
next
  show "execute_command e (''help'' # as) w = (0, w\<lparr> out := out w @ help_text \<rparr>)"
    by (simp add: execute_command_def display_help_def put_out_def)
next
  show "execute_command e (''exit'' # as) w = (1, w)"
    by (simp add: execute_command_def)
next
  show "execute_command e (''quit'' # as) w = (1, w)"
    by (simp add: execute_command_def)
qed

theorem successful_command_logs_once_witness:
  "quiet calm In_log_operation \<and> map_of (fs shelf) (resolve calm LOG_FILE) = Some (Reg []) \<and>
   fst (execute_command calm [''createFile'', ''b.txt''] shelf) = 0 \<and>
   map_of (fs (snd (execute_command calm [''createFile'', ''b.txt''] shelf))) ''log.txt'' =
     Some (Reg ''[2024-01-01 00:00:00] File \"b.txt\" created successfully.\<newline>'') \<and>
   resolve calm ''a.txt'' \<noteq> resolve calm LOG_FILE \<and>
   fst (execute_command calm [''deleteFile'', ''a.txt''] shelf) = 0 \<and>
   map_of (fs (snd (execute_command calm [''deleteFile'', ''a.txt''] shelf))) ''log.txt'' =
     Some (Reg ''[2024-01-01 00:00:00] File \"a.txt\" deleted successfully.\<newline>'') \<and>
   fst (execute_command calm [''showLogs''] shelf) = 0"
proof -
  have q: "quiet calm In_log_operation" by simp
  have l: "map_of (fs shelf) (resolve calm LOG_FILE) = Some (Reg [])" by (simp add: LOG_FILE_def)
  have c: "fst (execute_command calm [''createFile'', ''b.txt''] shelf) = 0"
    by (simp add: execute_command_def run_defs)
  have d: "fst (execute_command calm [''deleteFile'', ''a.txt''] shelf) = 0"
    by (simp add: execute_command_def run_defs)
  have ne: "resolve calm ''a.txt'' \<noteq> resolve calm LOG_FILE" by (simp add: LOG_FILE_def)
  from c have c': "execute_command calm [''createFile'', ''b.txt''] shelf =
      (0, snd (execute_command calm [''createFile'', ''b.txt''] shelf))"
    by (metis prod.collapse)
  from d have d': "execute_command calm [''deleteFile'', ''a.txt''] shelf =
      (0, snd (execute_command calm [''deleteFile'', ''a.txt''] shelf))"
    by (metis prod.collapse)
  note t1 = successful_command_logs_once [OF q l,
      where p = "''b.txt''" and w' = "snd (execute_command calm [''createFile'', ''b.txt''] shelf)"]
  note t2 = successful_command_logs_once [OF q l,
      where p = "''a.txt''" and w' = "snd (execute_command calm [''deleteFile'', ''a.txt''] shelf)"]
  note t3 = successful_command_logs_once [OF q l, where as = "[]"]
  from t1 c'
  have c2: "map_of (fs (snd (execute_command calm [''createFile'', ''b.txt''] shelf))) ''log.txt'' =
     Some (Reg ''[2024-01-01 00:00:00] File \"b.txt\" created successfully.\<newline>'')"
    by (simp add: LOG_FILE_def)
  from t2 d' ne
  have d2: "map_of (fs (snd (execute_command calm [''deleteFile'', ''a.txt''] shelf))) ''log.txt'' =
     Some (Reg ''[2024-01-01 00:00:00] File \"a.txt\" deleted successfully.\<newline>'')"
    by (simp add: LOG_FILE_def)
  from t3 have s: "fst (execute_command calm [''showLogs''] shelf) = 0"
    by simp
  from q l c c2 ne d d2 s show ?thesis by blast
qed

text \<open>
  C2 as stated fails for \<open>showLogs\<close> and \<open>help\<close>: both return 0 and the world after
  them differs from the world before only in the output stream. It also fails for
  \<open>deleteFile\<close> and \<open>appendToFile\<close> on a path that names the log file, such as
  \<open>./log.txt\<close>: the first returns 0 and leaves no log at all, the second returns 0 and
  leaves the log with the content before its line.
\<close>

theorem show_logs_appends_nothing:
  "execute_command calm [''showLogs''] shelf = (0, shelf\<lparr> out := ''Log file is empty.\<newline>'' \<rparr>) \<and>
   execute_command calm [''help''] shelf = (0, shelf\<lparr> out := help_text \<rparr>) \<and>
   fst (execute_command calm [''deleteFile'', ''./log.txt''] shelf) = 0 \<and>
   fs (snd (execute_command calm [''deleteFile'', ''./log.txt''] shelf)) =
     [(''a.txt'', Reg ''abc''), (''d'', Dir), (''d/a.txt'', Reg ''y'')] \<and>
   fst (execute_command calm [''appendToFile'', ''./log.txt'', ''X''] shelf) = 0 \<and>
   map_of (fs (snd (execute_command calm [''appendToFile'', ''./log.txt'', ''X''] shelf))) ''log.txt'' =
     Some (Reg (''\<newline>X'' @
       ''[2024-01-01 00:00:00] Content appended to file \"./log.txt\" successfully.\<newline>''))"
  by (simp add: execute_command_def show_logs_def display_help_def run_defs)

section \<open>Listing by extension\<close>

text \<open>
  C8, as amended. For a directory that exists, in an environment where no call of
  \<open>list_files_by_extension\<close> fails from outside, and where every path \<open>d/n\<close> fits the
  512 byte buffer: the function returns 0 and writes the header, then one line for each
  entry \<open>n\<close>, in the order of the directory, that is not a reference, is strictly
  longer than the extension, ends with the extension and is a regular file (the path
  \<open>d/n\<close> names one), and then the "no files" message if there was no such entry.
\<close>

theorem list_files_by_extension_lists:
  assumes "directory_exists e w d" and "quiet e In_list_files_by_extension"
    and "\<forall>n \<in> set (readdir w (resolve e d)). length d + length n < 511"
  shows "fst (list_files_by_extension e d x w) = 0 \<and>
     out (snd (list_files_by_extension e d x w)) =
       out w @
       take 255 (''Files with extension \"'' @ x @ ''\" in directory \"'' @ d @ ''\":\<newline>'') @
       concat (map (\<lambda>n. take 511 (''  '' @ n @ ''\<newline>''))
         (filter (\<lambda>n. n \<noteq> ''.'' \<and> n \<noteq> ''..'' \<and> length x < length n \<and> suffix x n \<and>
                    (\<exists>c. map_of (fs w) (resolve e (d @ ''/'' @ n)) = Some (Reg c)))
            (readdir w (resolve e d)))) @
       (if filter (\<lambda>n. n \<noteq> ''.'' \<and> n \<noteq> ''..'' \<and> length x < length n \<and> suffix x n \<and>
                    (\<exists>c. map_of (fs w) (resolve e (d @ ''/'' @ n)) = Some (Reg c)))
            (readdir w (resolve e d)) = []
        then take 255 (''No files with extension \"'' @ x @ ''\" found in \"'' @ d @ ''\".\<newline>'')
        else [])"
proof -
  have same: "filter (\<lambda>nm. nm \<noteq> ''.'' \<and> nm \<noteq> ''..'' \<and> has_extension nm x \<and>
            (\<exists>c. map_of (fs w) (resolve e (string_format 512 ''%s/%s'' [S d, S nm])) = Some (Reg c)))
            (readdir w (resolve e d)) =
        filter (\<lambda>n. n \<noteq> ''.'' \<and> n \<noteq> ''..'' \<and> length x < length n \<and> suffix x n \<and>
                    (\<exists>c. map_of (fs w) (resolve e (d @ ''/'' @ n)) = Some (Reg c)))
            (readdir w (resolve e d))"
  proof (rule filter_cong [OF refl])
    fix n
    assume "n \<in> set (readdir w (resolve e d))"
    with assms(3) have "length d + length n < 511" by blast
    then have "string_format 512 ''%s/%s'' [S d, S n] = d @ ''/'' @ n"
      by (rule path_fits)
    then show "(n \<noteq> ''.'' \<and> n \<noteq> ''..'' \<and> has_extension n x \<and>
            (\<exists>c. map_of (fs w) (resolve e (string_format 512 ''%s/%s'' [S d, S n])) = Some (Reg c))) =
          (n \<noteq> ''.'' \<and> n \<noteq> ''..'' \<and> length x < length n \<and> suffix x n \<and>
                    (\<exists>c. map_of (fs w) (resolve e (d @ ''/'' @ n)) = Some (Reg c)))"
      by (simp only: has_extension_iff conj_assoc)
  qed
  have line: "(\<lambda>nm. string_format 512 ''  %s\<newline>'' [S nm]) = (\<lambda>n. take 511 (''  '' @ n @ ''\<newline>''))"
    by (simp add: string_format_take)
  have head: "string_format 256 ''Files with extension \"%s\" in directory \"%s\":\<newline>'' [S x, S d] =
      take 255 (''Files with extension \"'' @ x @ ''\" in directory \"'' @ d @ ''\":\<newline>'')"
    by (simp add: string_format_take)
  have none: "string_format 256 ''No files with extension \"%s\" found in \"%s\".\<newline>'' [S x, S d] =
      take 255 (''No files with extension \"'' @ x @ ''\" found in \"'' @ d @ ''\".\<newline>'')"
    by (simp add: string_format_take)
  from list_files_by_extension_out [OF assms(1,2), of x]
  show ?thesis
    by (simp only: same line head none)
qed

theorem list_files_by_extension_lists_witness:
  "directory_exists calm attic ''d'' \<and> quiet calm In_list_files_by_extension \<and>
   readdir attic (resolve calm ''d'') = [''.'', ''..'', ''.txt'', ''a.txt'', ''b.TXT'', ''c.txt''] \<and>
   fst (list_files_by_extension calm ''d'' ''.txt'' attic) = 0 \<and>
   out (snd (list_files_by_extension calm ''d'' ''.txt'' attic)) =
     ''Files with extension \".txt\" in directory \"d\":\<newline>'' @ ''  a.txt\<newline>'' \<and>
   out (snd (list_files_by_extension calm ''d'' ''.md'' attic)) =
     ''Files with extension \".md\" in directory \"d\":\<newline>'' @
     ''No files with extension \".md\" found in \"d\".\<newline>''"
proof -
  have d: "directory_exists calm attic ''d''" by (simp add: directory_exists_def)
  have q: "quiet calm In_list_files_by_extension" by simp
  have r: "readdir attic ''d'' = [''.'', ''..'', ''.txt'', ''a.txt'', ''b.TXT'', ''c.txt'']"
    by (simp add: readdir_def entry_of_def)
  have r': "readdir attic (resolve calm ''d'') = [''.'', ''..'', ''.txt'', ''a.txt'', ''b.TXT'', ''c.txt'']"
    by (simp add: r)
  have fit: "\<forall>n \<in> set (readdir attic (resolve calm ''d'')). length ''d'' + length n < 511"
    by (simp add: r)
  note t1 = list_files_by_extension_lists [OF d q fit, of "''.txt''"]
  note t2 = list_files_by_extension_lists [OF d q fit, of "''.md''"]
  from t1 have a: "fst (list_files_by_extension calm ''d'' ''.txt'' attic) = 0" by blast
  from t1 have b: "out (snd (list_files_by_extension calm ''d'' ''.txt'' attic)) =
     ''Files with extension \".txt\" in directory \"d\":\<newline>'' @ ''  a.txt\<newline>''"
    by (simp add: r)
  from t2 have c: "out (snd (list_files_by_extension calm ''d'' ''.md'' attic)) =
     ''Files with extension \".md\" in directory \"d\":\<newline>'' @
     ''No files with extension \".md\" found in \"d\".\<newline>''"
    by (simp add: r)
  from d q r' a b c show ?thesis by blast
qed

text \<open>
  C8 as stated fails for a file whose whole name is the extension: \<open>.txt\<close> is a
  regular file of the directory and ends with \<open>.txt\<close>, and it is not listed.
\<close>

theorem list_files_by_extension_bare_suffix:
  "map_of (fs attic) (resolve calm ''d/.txt'') = Some (Reg ''x'') \<and>
   ''.txt'' \<in> set (readdir attic (resolve calm ''d'')) \<and>
   suffix ''.txt'' ''.txt'' \<and>
   list_files_by_extension calm ''d'' ''.txt'' attic =
     (0, attic\<lparr> fs := [(''log.txt'', Reg (''[2024-01-01 00:00:00] '' @
                            ''Listed files with extension \".txt\" in directory \"d\".\<newline>'')),
                         (''d'', Dir), (''d/.txt'', Reg ''x''), (''d/a.txt'', Reg ''y''),
                         (''d/b.TXT'', Reg ''z''), (''d/c.txt'', Dir)],
                  out := ''Files with extension \".txt\" in directory \"d\":\<newline>'' @ ''  a.txt\<newline>'',
                  ticks := 1 \<rparr>)"
  by (simp add: dir_defs run_defs attic_def)

end
